theory Spec2Isabelle
  imports Main "HOL-Library.AList"
begin

section \<open>Data model\<close>

text \<open>
  The views and serializers of \<^verbatim>\<open>market\<close> work on Django model rows. A table is an
  association list from primary keys to rows, in insertion order (the order in which
  \<^verbatim>\<open>.all()\<close> yields the rows). Status fields are the strings the code compares.
  Decimal amounts are integers (minor units).
\<close>

type_synonym 'a table = "(nat \<times> 'a) list"

record product =
  nombre :: string
  precio :: int
  stock :: int
  stock_vendido :: int
  stock_ilimitado :: bool

record cart =
  cart_usuario :: nat

record cart_item =
  carrito :: nat
  item_producto :: nat
  item_cantidad :: int

record order =
  usuario :: nat
  estado :: string
  total :: int
  direccion_envio :: string

record order_detail =
  pedido :: nat
  producto :: nat
  cantidad :: int
  subtotal :: int

datatype json =
    JNull
  | JBool bool
  | JNum int
  | JStr string
  | JArr "json list"
  | JObj "(string \<times> json) list"

record pay =
  pay_pedido :: nat
  metodo :: string
  pay_estado :: string
  monto_pagado :: int
  metadata :: json
  comprobante_url :: string
  comprobante_archivo :: "string option"

record shipment =
  envio_pedido :: nat
  envio_estado :: string
  numero_guia :: string
  empresa_envio :: string

record db =
  products :: "product table"
  carts :: "cart table"
  cart_items :: "cart_item table"
  orders :: "order table"
  details :: "order_detail table"
  pagos :: "pay table"
  shipments :: "shipment table"

text \<open>
  \<^verbatim>\<open>request.user\<close>: its primary key, its \<^verbatim>\<open>role\<close> and its \<^verbatim>\<open>address\<close>. For both
  attributes \<open>None\<close> stands for a user object that has no such attribute, the case in
  which \<^verbatim>\<open>getattr(user, 'role', None)\<close> and \<^verbatim>\<open>getattr(request.user, 'address', ...)\<close>
  read their default; a user whose \<^verbatim>\<open>address\<close> attribute exists has \<open>Some\<close> string there.
\<close>

record user =
  uid :: nat
  role :: "string option"
  address :: "string option"

text \<open>
  Failures. A handler that answers with an error response, or a serializer that raises
  \<^verbatim>\<open>ValidationError\<close>, returns \<open>Inl\<close> of one of these. The names follow the error
  taxonomy of the specification; \<open>InsufficientStock\<close> carries the name of the product
  the message names, \<open>OrderLocked\<close> the status of the order, \<open>InvalidStateTransition\<close>
  the current status and the one asked for, \<open>InvalidField\<close> the name of a field of the
  request that its serializer field refuses; \<open>ServerError\<close> stands for an exception nothing
  catches.
\<close>

datatype error =
    EmptyCart
  | InsufficientStock string
  | OrderLocked string
  | AlreadyCancelled
  | InvalidStateTransition string string
  | Unauthorized
  | NotFound
  | InvalidMetadata
  | ForbiddenSensitiveData
  | AlreadyPaid
  | DuplicateOpenPayment
  | ForeignOrder
  | MissingProof
  | InvalidEstado
  | InvalidField string
  | DetailNotInOrder nat
  | ServerError string

section \<open>Rows and tables\<close>

text \<open>
  A new row gets a key no row of the table has: one more than the largest key. (A
  database sequence would moreover never give the key of a deleted row again; the
  statements below use that the key is new, never which number it is.)
\<close>

definition new_id :: "'a table \<Rightarrow> nat" where
  "new_id t = Suc (foldr max (map fst t) 0)"

definition insert_row :: "'a \<Rightarrow> 'a table \<Rightarrow> nat \<times> 'a table" where
  "insert_row r t = (new_id t, t @ [(new_id t, r)])"

definition save_row :: "nat \<Rightarrow> 'a \<Rightarrow> 'a table \<Rightarrow> 'a table" where
  "save_row k r t = AList.update k r t"

definition delete_row :: "nat \<Rightarrow> 'a table \<Rightarrow> 'a table" where
  "delete_row k t = filter (\<lambda>kr. fst kr \<noteq> k) t"

definition staff :: "user \<Rightarrow> bool" where
  "staff u = (role u = Some ''admin'' \<or> role u = Some ''operator'')"

section \<open>Inventory\<close>

text \<open>
  Modelled from the spec: the property \<^verbatim>\<open>Product.stock_disponible\<close> is declared in
  \<^verbatim>\<open>market/models.py\<close>, which is not among the sources. The specification gives
  \<^verbatim>\<open>available = unlimited ? infinity : (base_stock - sold)\<close>; \<open>None\<close> is the infinite
  availability of a product flagged \<^verbatim>\<open>stock_ilimitado\<close>.
\<close>

definition stock_disponible :: "product \<Rightarrow> int option" where
  "stock_disponible p = (if stock_ilimitado p then None else Some (stock p - stock_vendido p))"

text \<open>The comparison \<^verbatim>\<open>cantidad > producto.stock_disponible\<close>.\<close>

definition exceeds :: "int \<Rightarrow> int option \<Rightarrow> bool" where
  "exceeds n a = (case a of None \<Rightarrow> False | Some m \<Rightarrow> n > m)"

section \<open>Cart\<close>

text \<open>\<^verbatim>\<open>Cart.objects.get_or_create(usuario=request.user)\<close>.\<close>

definition find_cart :: "cart table \<Rightarrow> nat \<Rightarrow> nat option" where
  "find_cart t u = (case filter (\<lambda>kc. cart_usuario (snd kc) = u) t of
                      [] \<Rightarrow> None | kc # _ \<Rightarrow> Some (fst kc))"

definition get_or_create_cart :: "nat \<Rightarrow> db \<Rightarrow> nat \<times> db" where
  "get_or_create_cart u s =
     (case find_cart (carts s) u of
        Some c \<Rightarrow> (c, s)
      | None \<Rightarrow> (let (c, t) = insert_row \<lparr>cart_usuario = u\<rparr> (carts s)
                 in (c, s\<lparr>carts := t\<rparr>)))"

text \<open>\<^verbatim>\<open>carrito.items.all()\<close>.\<close>

definition items_of :: "db \<Rightarrow> nat \<Rightarrow> cart_item list" where
  "items_of s c = map snd (filter (\<lambda>ki. carrito (snd ki) = c) (cart_items s))"

text \<open>
  Modelled from the spec: \<^verbatim>\<open>Cart.total()\<close> and \<^verbatim>\<open>Cart.limpiar()\<close> are methods of
  \<^verbatim>\<open>market/models.py\<close>, which is not among the sources. The specification gives the total
  as the sum over the current items of quantity times the product's current price, and
  \<^verbatim>\<open>clear(cart)\<close> as deleting all items of the cart. Reading the product of an item whose
  row is gone raises \<^verbatim>\<open>DoesNotExist\<close>.
\<close>

fun lines_total :: "product table \<Rightarrow> cart_item list \<Rightarrow> error + int" where
  "lines_total pt [] = Inr 0"
| "lines_total pt (it # its) =
     (case map_of pt (item_producto it) of
        None \<Rightarrow> Inl (ServerError ''DoesNotExist'')
      | Some p \<Rightarrow> (case lines_total pt its of
                    Inl e \<Rightarrow> Inl e
                  | Inr n \<Rightarrow> Inr (item_cantidad it * precio p + n)))"

definition cart_total :: "db \<Rightarrow> nat \<Rightarrow> error + int" where
  "cart_total s c = lines_total (products s) (items_of s c)"

definition limpiar :: "nat \<Rightarrow> db \<Rightarrow> db" where
  "limpiar c s = s\<lparr>cart_items := filter (\<lambda>ki. carrito (snd ki) \<noteq> c) (cart_items s)\<rparr>"

section \<open>Checkout\<close>

text \<open>
  Modelled from the spec: deleting an order cascades to its details (the \<^verbatim>\<open>on_delete\<close>
  of \<^verbatim>\<open>OrderDetail.pedido\<close> is declared in \<^verbatim>\<open>market/models.py\<close>, which is not among the
  sources; the specification says that an order exclusively owns its details, cascade
  delete).
\<close>

definition order_delete :: "nat \<Rightarrow> db \<Rightarrow> db" where
  "order_delete k s =
     s\<lparr>orders := delete_row k (orders s),
       details := filter (\<lambda>kd. pedido (snd kd) \<noteq> k) (details s)\<rparr>"

text \<open>
  First loop of \<^verbatim>\<open>CartViewSet.checkout\<close>: the first item that asks for more than is
  available ends the request; nothing has been written yet.
\<close>

fun first_check :: "product table \<Rightarrow> cart_item list \<Rightarrow> error option" where
  "first_check pt [] = None"
| "first_check pt (it # its) =
     (case map_of pt (item_producto it) of
        None \<Rightarrow> Some (ServerError ''DoesNotExist'')
      | Some p \<Rightarrow>
          if exceeds (item_cantidad it) (stock_disponible p)
          then Some (InsufficientStock (nombre p))
          else first_check pt its)"

text \<open>
  Second loop of \<^verbatim>\<open>CartViewSet.checkout\<close>, for the order \<open>k\<close> just created. Each round
  reads the product row again (\<^verbatim>\<open>refresh_from_db\<close>), checks the quantity a second time,
  and on failure deletes the order and answers with the error; otherwise it creates the
  detail and saves the product with its sold counter increased. Every write is saved at
  once: the handler opens no transaction, and it leaves through \<^verbatim>\<open>return Response\<close>.
\<close>

fun transfer :: "nat \<Rightarrow> cart_item list \<Rightarrow> db \<Rightarrow> (error + unit) \<times> db" where
  "transfer k [] s = (Inr (), s)"
| "transfer k (it # its) s =
     (case map_of (products s) (item_producto it) of
        None \<Rightarrow> (Inl (ServerError ''DoesNotExist''), s)
      | Some p \<Rightarrow>
          if exceeds (item_cantidad it) (stock_disponible p)
          then (Inl (InsufficientStock (nombre p)), order_delete k s)
          else
            let d = \<lparr>pedido = k, producto = item_producto it, cantidad = item_cantidad it,
                     subtotal = item_cantidad it * precio p\<rparr>;
                s1 = s\<lparr>details := snd (insert_row d (details s))\<rparr>;
                s2 = s1\<lparr>products := save_row (item_producto it)
                                      (p\<lparr>stock_vendido := stock_vendido p + item_cantidad it\<rparr>)
                                      (products s1)\<rparr>
            in transfer k its s2)"

record checkout_ok =
  pedido_id :: nat
  ok_total :: int

text \<open>
  \<^verbatim>\<open>CartViewSet.checkout\<close>. The argument \<open>env\<close> is what requests served at the same time
  write to the product table between the first loop and the second loop's
  \<^verbatim>\<open>refresh_from_db\<close>; it is the identity when the request runs alone.
\<close>

definition checkout :: "(product table \<Rightarrow> product table) \<Rightarrow> user \<Rightarrow> db \<Rightarrow> (error + checkout_ok) \<times> db" where
  "checkout env u s0 =
     (let (c, s) = get_or_create_cart (uid u) s0 in
      if length (items_of s c) = 0 then (Inl EmptyCart, s)
      else (case first_check (products s) (items_of s c) of
        Some e \<Rightarrow> (Inl e, s)
      | None \<Rightarrow>
          (case cart_total s c of
             Inl e \<Rightarrow> (Inl e, s)
           | Inr t \<Rightarrow>
               let direccion_cliente =
                     (case address u of
                        None \<Rightarrow> ''Direccion no proporcionada por el cliente''
                      | Some a \<Rightarrow> a);
                   (k, ot) = insert_row \<lparr>usuario = uid u, estado = ''pendiente'', total = t,
                                         direccion_envio = direccion_cliente\<rparr> (orders s);
                   s1 = s\<lparr>orders := ot\<rparr>;
                   s2 = s1\<lparr>products := env (products s1)\<rparr>
               in (case transfer k (items_of s2 c) s2 of
                     (Inl e, s3) \<Rightarrow> (Inl e, s3)
                   | (Inr _, s3) \<Rightarrow> (Inr \<lparr>pedido_id = k, ok_total = t\<rparr>, limpiar c s3)))))"

section \<open>Orders\<close>

text \<open>\<^verbatim>\<open>OrderViewSet.get_queryset\<close> and \<^verbatim>\<open>get_object\<close>: staff see every order, the others
  their own; an order outside the queryset is answered with 404.\<close>

definition order_visible :: "user \<Rightarrow> order \<Rightarrow> bool" where
  "order_visible u ord = (staff u \<or> usuario ord = uid u)"

definition get_order :: "user \<Rightarrow> nat \<Rightarrow> db \<Rightarrow> error + order" where
  "get_order u k s =
     (case map_of (orders s) k of
        None \<Rightarrow> Inl NotFound
      | Some ord \<Rightarrow> if order_visible u ord then Inr ord else Inl NotFound)"

text \<open>
  Modelled from the spec: \<^verbatim>\<open>Order.total_update()\<close> is a method of
  \<^verbatim>\<open>market/models.py\<close>, which is not among the sources. The specification gives
  \<^verbatim>\<open>recalculateTotal\<close>: the total becomes the sum of the current detail subtotals.
  The method works on the order object the handler holds and saves it.
\<close>

definition order_total :: "db \<Rightarrow> nat \<Rightarrow> int" where
  "order_total s k =
     sum_list (map (\<lambda>kd. subtotal (snd kd)) (filter (\<lambda>kd. pedido (snd kd) = k) (details s)))"

definition total_update :: "nat \<Rightarrow> order \<Rightarrow> db \<Rightarrow> db" where
  "total_update k ord s = s\<lparr>orders := save_row k (ord\<lparr>total := order_total s k\<rparr>) (orders s)\<rparr>"

text \<open>\<^verbatim>\<open>OrderViewSet.cancel\<close>.\<close>

definition cancel :: "user \<Rightarrow> nat \<Rightarrow> db \<Rightarrow> (error + unit) \<times> db" where
  "cancel u k s =
     (case get_order u k s of
        Inl e \<Rightarrow> (Inl e, s)
      | Inr ord \<Rightarrow>
          if estado ord = ''cancelado'' then (Inl AlreadyCancelled, s)
          else if estado ord \<notin> {''pendiente'', ''procesando''}
          then (Inl (InvalidStateTransition (estado ord) ''cancelado''), s)
          else (Inr (), s\<lparr>orders := save_row k (ord\<lparr>estado := ''cancelado''\<rparr>) (orders s)\<rparr>))"

text \<open>\<^verbatim>\<open>OrderDetail.objects.get(id=detail_id, pedido=order)\<close>.\<close>

definition get_detail :: "db \<Rightarrow> nat \<Rightarrow> nat \<Rightarrow> order_detail option" where
  "get_detail s d k =
     (case map_of (details s) d of
        None \<Rightarrow> None
      | Some x \<Rightarrow> if pedido x = k then Some x else None)"

text \<open>\<^verbatim>\<open>OrderViewSet.remove_detail\<close>; it answers with the updated total.\<close>

definition remove_detail :: "user \<Rightarrow> nat \<Rightarrow> nat \<Rightarrow> db \<Rightarrow> (error + int) \<times> db" where
  "remove_detail u k detail_id s =
     (case get_order u k s of
        Inl e \<Rightarrow> (Inl e, s)
      | Inr ord \<Rightarrow>
          if estado ord \<in> {''entregado'', ''cancelado''} then (Inl (OrderLocked (estado ord)), s)
          else
            (case get_detail s detail_id k of
               None \<Rightarrow> (Inl NotFound, s)
             | Some d \<Rightarrow>
                 (case map_of (products s) (producto d) of
                    None \<Rightarrow> (Inl (ServerError ''DoesNotExist''), s)
                  | Some p \<Rightarrow>
                      let s1 = s\<lparr>products := save_row (producto d)
                                                (p\<lparr>stock := stock p + cantidad d\<rparr>) (products s)\<rparr>;
                          s2 = s1\<lparr>details := delete_row detail_id (details s1)\<rparr>;
                          s3 = total_update k ord s2
                      in (Inr (order_total s2 k), s3))))"

text \<open>
  The entries of \<^verbatim>\<open>request.data['detalles']\<close>: each key may be missing
  (\<^verbatim>\<open>detalle_data.get\<close>).
\<close>

record detalle_data =
  dd_producto :: "nat option"
  dd_cantidad :: "int option"
  dd_id :: "nat option"

text \<open>Python truth of an optional key: a missing key and the number 0 are false.\<close>

definition given :: "nat option \<Rightarrow> nat option" where
  "given x = (case x of None \<Rightarrow> None | Some n \<Rightarrow> if n = 0 then None else Some n)"

text \<open>
  \<^verbatim>\<open>OrderViewSet._process_order_details\<close>. An entry with no product, or with a product
  that does not exist, is skipped. An entry with an \<^verbatim>\<open>id\<close> changes that detail of the
  order, moving the difference through \<^verbatim>\<open>producto.stock\<close>; an entry without one creates
  a detail. A \<^verbatim>\<open>ValidationError\<close> ends the loop; what earlier rounds saved stays.

  Modelled from the spec: a detail created without a subtotal gets quantity times the
  unit price at the time of creation (\<^verbatim>\<open>OrderDetail.save\<close> is in \<^verbatim>\<open>market/models.py\<close>,
  which is not among the sources).
\<close>

fun process_order_details :: "nat \<Rightarrow> detalle_data list \<Rightarrow> db \<Rightarrow> (error + unit) \<times> db" where
  "process_order_details k [] s = (Inr (), s)"
| "process_order_details k (dd # dds) s =
     (case given (dd_producto dd) of
        None \<Rightarrow> process_order_details k dds s
      | Some producto_id \<Rightarrow>
          (case map_of (products s) producto_id of
             None \<Rightarrow> process_order_details k dds s
           | Some p \<Rightarrow>
               let n = (case dd_cantidad dd of None \<Rightarrow> 1 | Some c \<Rightarrow> c) in
               (case given (dd_id dd) of
                  Some detalle_id \<Rightarrow>
                    (case get_detail s detalle_id k of
                       None \<Rightarrow> (Inl (DetailNotInOrder detalle_id), s)
                     | Some d \<Rightarrow>
                         if cantidad d \<noteq> n \<and> stock p + cantidad d < n
                         then (Inl (InsufficientStock (nombre p)), s)
                         else
                           let s1 = (if cantidad d \<noteq> n
                                     then s\<lparr>products := save_row producto_id
                                                (p\<lparr>stock := stock p + cantidad d - n\<rparr>) (products s)\<rparr>
                                     else s);
                               s2 = s1\<lparr>details := save_row detalle_id (d\<lparr>cantidad := n\<rparr>) (details s1)\<rparr>
                           in process_order_details k dds s2)
                | None \<Rightarrow>
                    if stock p < n then (Inl (InsufficientStock (nombre p)), s)
                    else
                      let d = \<lparr>pedido = k, producto = producto_id, cantidad = n,
                               subtotal = n * precio p\<rparr>
                      in process_order_details k dds (s\<lparr>details := snd (insert_row d (details s))\<rparr>))))"

text \<open>
  The fields \<^verbatim>\<open>serializer.save()\<close> writes to the order on an update; a field the request
  leaves out keeps its value.
\<close>

record order_update =
  upd_usuario :: "nat option"
  upd_estado :: "string option"
  upd_direccion_envio :: "string option"

definition serializer_save :: "order_update \<Rightarrow> order \<Rightarrow> order" where
  "serializer_save upd ord =
     ord\<lparr>usuario := (case upd_usuario upd of None \<Rightarrow> usuario ord | Some x \<Rightarrow> x),
       estado := (case upd_estado upd of None \<Rightarrow> estado ord | Some x \<Rightarrow> x),
       direccion_envio := (case upd_direccion_envio upd of None \<Rightarrow> direccion_envio ord | Some x \<Rightarrow> x)\<rparr>"

text \<open>\<^verbatim>\<open>OrderViewSet.perform_update\<close>, with the validated fields and the \<^verbatim>\<open>detalles\<close> of
  the request.\<close>

definition perform_update :: "user \<Rightarrow> nat \<Rightarrow> order_update \<Rightarrow> detalle_data list \<Rightarrow> db \<Rightarrow> (error + unit) \<times> db" where
  "perform_update u k upd detalles s =
     (case get_order u k s of
        Inl e \<Rightarrow> (Inl e, s)
      | Inr ord \<Rightarrow>
          if estado ord \<in> {''entregado'', ''cancelado''} then (Inl (OrderLocked (estado ord)), s)
          else
            let updated_instance = serializer_save upd ord;
                s1 = s\<lparr>orders := save_row k updated_instance (orders s)\<rparr>
            in (case (if detalles \<noteq> [] then process_order_details k detalles s1 else (Inr (), s1)) of
                  (Inl e, s2) \<Rightarrow> (Inl e, s2)
                | (Inr _, s2) \<Rightarrow> (Inr (), total_update k updated_instance s2)))"

section \<open>Payments\<close>

text \<open>
  What \<^verbatim>\<open>PaySerializer.validate\<close> and \<^verbatim>\<open>PaySerializer.create\<close> receive. The order is the
  object the \<^verbatim>\<open>pedido\<close> field resolved (its key and its row); \<^verbatim>\<open>metadata\<close> is a raw
  string or a decoded value; \<^verbatim>\<open>estado\<close> is a field of the serializer with default
  \<^verbatim>\<open>'pendiente'\<close>, \<^verbatim>\<open>comprobante_url\<close> one with default \<^verbatim>\<open>''\<close>.
\<close>

datatype meta_in = MetaStr string | MetaVal json

record pay_attrs =
  a_pedido :: "(nat \<times> order) option"
  a_metodo :: "string option"
  a_estado :: string
  a_monto_pagado :: "int option"
  a_metadata :: "meta_in option"
  a_comprobante_url :: string
  a_comprobante_archivo :: "string option"

text \<open>Python truth of a JSON value, of the metadata and of an optional string.\<close>

fun truthy :: "json \<Rightarrow> bool" where
  "truthy JNull = False"
| "truthy (JBool b) = b"
| "truthy (JNum n) = (n \<noteq> 0)"
| "truthy (JStr x) = (x \<noteq> [])"
| "truthy (JArr xs) = (xs \<noteq> [])"
| "truthy (JObj d) = (d \<noteq> [])"

fun truthy_meta :: "meta_in \<Rightarrow> bool" where
  "truthy_meta (MetaStr x) = (x \<noteq> [])"
| "truthy_meta (MetaVal v) = truthy v"

definition truthy_str :: "string option \<Rightarrow> bool" where
  "truthy_str x = (case x of None \<Rightarrow> False | Some y \<Rightarrow> y \<noteq> [])"

text \<open>\<^verbatim>\<open>k in t\<close> for two Python strings: \<open>k\<close> occurs in \<open>t\<close>.\<close>

fun occurs_in :: "string \<Rightarrow> string \<Rightarrow> bool" where
  "occurs_in k [] = (k = [])"
| "occurs_in k (c # cs) = (take (length k) (c # cs) = k \<or> occurs_in k cs)"

text \<open>
  \<^verbatim>\<open>k in metadata\<close>: a key of a dictionary, an element of a list, a part of a string;
  on anything else Python raises \<^verbatim>\<open>TypeError\<close>.
\<close>

fun py_in :: "string \<Rightarrow> json \<Rightarrow> error + bool" where
  "py_in k (JObj d) = Inr (k \<in> set (map fst d))"
| "py_in k (JArr xs) = Inr (JStr k \<in> set xs)"
| "py_in k (JStr t) = Inr (occurs_in k t)"
| "py_in k _ = Inl (ServerError ''TypeError'')"

text \<open>\<^verbatim>\<open>any(...)\<close> over a generator: it stops at the first true element, and an
  exception in an element leaves it.\<close>

fun py_any :: "(error + bool) list \<Rightarrow> error + bool" where
  "py_any [] = Inr False"
| "py_any (x # xs) =
     (case x of
        Inl e \<Rightarrow> Inl e
      | Inr b \<Rightarrow> if b then Inr True else py_any xs)"

definition forbidden :: "string list" where
  "forbidden = [''number'', ''card_number'', ''cvv'', ''cvc'', ''exp'', ''exp_month'', ''exp_year'']"

text \<open>\<^verbatim>\<open>pedido.pagos.filter(estado__in=['pendiente','en_revision'])\<close>.\<close>

definition open_pagos :: "db \<Rightarrow> nat \<Rightarrow> (nat \<times> pay) list" where
  "open_pagos s k =
     filter (\<lambda>kp. pay_pedido (snd kp) = k \<and> pay_estado (snd kp) \<in> {''pendiente'', ''en_revision''})
       (pagos s)"

text \<open>
  \<^verbatim>\<open>PaySerializer.validate\<close>. \<open>loads\<close> is \<^verbatim>\<open>json.loads\<close>, \<open>None\<close> where it raises; \<open>inst\<close>
  is \<^verbatim>\<open>self.instance\<close>, \<open>None\<close> on creation. The first step yields the metadata the checks
  read and the attributes with the decoded metadata stored.
\<close>

definition decode_metadata :: "(string \<Rightarrow> json option) \<Rightarrow> pay_attrs \<Rightarrow> error + json \<times> pay_attrs" where
  "decode_metadata loads attrs =
     (let m = (case a_metadata attrs of
                 None \<Rightarrow> MetaVal (JObj [])
               | Some x \<Rightarrow> if truthy_meta x then x else MetaVal (JObj []))
      in case m of
           MetaStr x \<Rightarrow>
             (case loads x of
                None \<Rightarrow> Inl InvalidMetadata
              | Some v \<Rightarrow> Inr (v, attrs\<lparr>a_metadata := Some (MetaVal v)\<rparr>))
         | MetaVal v \<Rightarrow> Inr (v, attrs))"

definition PaySerializer_validate ::
  "(string \<Rightarrow> json option) \<Rightarrow> pay option \<Rightarrow> db \<Rightarrow> pay_attrs \<Rightarrow> error + pay_attrs" where
  "PaySerializer_validate loads inst s attrs =
     (let the_metodo = (if truthy_str (a_metodo attrs) then a_metodo attrs
                     else map_option metodo inst)
      in case decode_metadata loads attrs of
           Inl e \<Rightarrow> Inl e
         | Inr (md, attrs1) \<Rightarrow>
             (case (if the_metodo = Some ''tarjeta''
                    then py_any (map (\<lambda>k. py_in k md) forbidden)
                    else Inr False) of
                Inl e \<Rightarrow> Inl e
              | Inr b \<Rightarrow>
                  if b then Inl ForbiddenSensitiveData
                  else
                    (case a_pedido attrs of
                       None \<Rightarrow> Inr attrs1
                     | Some (k, ord) \<Rightarrow>
                         if estado ord = ''pagado'' then Inl AlreadyPaid
                         else if open_pagos s k \<noteq> [] then Inl DuplicateOpenPayment
                         else Inr attrs1)))"

text \<open>
  \<^verbatim>\<open>PaySerializer.create\<close>: the amount defaults to the total of the order, a proof moves
  the new payment to \<^verbatim>\<open>'en_revision'\<close>, and the row is inserted with the attributes. A
  payment needs an order and a method (the columns are not nullable).
\<close>

definition stored_metadata :: "meta_in option \<Rightarrow> json" where
  "stored_metadata m = (case m of None \<Rightarrow> JObj [] | Some (MetaStr x) \<Rightarrow> JStr x | Some (MetaVal v) \<Rightarrow> v)"

definition PaySerializer_create :: "pay_attrs \<Rightarrow> db \<Rightarrow> (error + nat) \<times> db" where
  "PaySerializer_create validated_data s =
     (case (a_pedido validated_data, a_metodo validated_data) of
        (Some (k, ord), Some m) \<Rightarrow>
          let monto = (case a_monto_pagado validated_data of
                         None \<Rightarrow> total ord
                       | Some x \<Rightarrow> if x = 0 then total ord else x);
              est = (if truthy_str (a_comprobante_archivo validated_data)
                        \<or> a_comprobante_url validated_data \<noteq> []
                     then ''en_revision'' else a_estado validated_data);
              (i, t) = insert_row \<lparr>pay_pedido = k, metodo = m, pay_estado = est,
                                   monto_pagado = monto,
                                   metadata = stored_metadata (a_metadata validated_data),
                                   comprobante_url = a_comprobante_url validated_data,
                                   comprobante_archivo = a_comprobante_archivo validated_data\<rparr>
                                  (pagos s)
          in (Inr i, s\<lparr>pagos := t\<rparr>)
      | _ \<Rightarrow> (Inl (ServerError ''IntegrityError''), s))"

text \<open>\<^verbatim>\<open>PayViewSet.perform_create\<close>, after the serializer has validated the request.\<close>

definition perform_create :: "user \<Rightarrow> pay_attrs \<Rightarrow> db \<Rightarrow> (error + nat) \<times> db" where
  "perform_create u validated_data s =
     (case a_pedido validated_data of
        None \<Rightarrow> (Inl (ServerError ''AttributeError''), s)
      | Some (k, ord) \<Rightarrow>
          if \<not> staff u \<and> usuario ord \<noteq> uid u then (Inl ForeignOrder, s)
          else if estado ord \<notin> {''pendiente''}
          then (Inl (InvalidStateTransition (estado ord) ''pagado''), s)
          else PaySerializer_create validated_data s)"

text \<open>
  A request to create a payment: the key of the order, the method, and the optional
  fields. The metadata comes as the value under the key \<^verbatim>\<open>metadata\<close> of a JSON body, or
  as the field \<^verbatim>\<open>metadata\<close> of a multipart or form body, which is a raw string.
  \<^verbatim>\<open>monto_pagado\<close> is read-only in the serializer, so no request sets it.
\<close>

datatype meta_rq = MetaJson json | MetaForm string

record pay_request =
  rq_pedido :: nat
  rq_metodo :: string
  rq_estado :: "string option"
  rq_metadata :: "meta_rq option"
  rq_comprobante_url :: "string option"
  rq_comprobante_archivo :: "string option"

text \<open>
  The serializer declares \<^verbatim>\<open>metadata = serializers.DictField(required=False, default=dict)\<close>.
  The field of the framework runs before \<^verbatim>\<open>validate\<close>: a missing key gives the default, an
  empty dictionary; a JSON value that is not a dictionary is refused; and in a multipart
  or form body the field only collects the keys named \<^verbatim>\<open>metadata.<key>\<close>, so the raw string
  sent under \<^verbatim>\<open>metadata\<close> itself is dropped and the result is the empty dictionary.
\<close>

definition DictField :: "meta_rq option \<Rightarrow> error + json" where
  "DictField m =
     (case m of
        None \<Rightarrow> Inr (JObj [])
      | Some (MetaJson v) \<Rightarrow> (case v of JObj d \<Rightarrow> Inr (JObj d) | _ \<Rightarrow> Inl (InvalidField ''metadata''))
      | Some (MetaForm x) \<Rightarrow> Inr (JObj []))"

text \<open>
  The serializer declares
  \<^verbatim>\<open>comprobante_url = serializers.URLField(required=False, allow_blank=True, default='')\<close>.
  \<open>url_ok\<close> is the URL validator of the framework: a string that is not empty and that it
  does not accept is refused.
\<close>

definition URLField :: "(string \<Rightarrow> bool) \<Rightarrow> string option \<Rightarrow> error + string" where
  "URLField url_ok x =
     (case x of
        None \<Rightarrow> Inr []
      | Some y \<Rightarrow> if y = [] \<or> url_ok y then Inr y else Inl (InvalidField ''comprobante_url''))"

text \<open>
  The fields of the serializer turn the request into the attributes \<^verbatim>\<open>validate\<close> gets: the
  order is resolved (a key with no row is refused), the defaults are filled in, the
  metadata and the URL go through their fields. The serializer reports every refused
  field; the model names the first. Then \<^verbatim>\<open>validate\<close> runs, and the view runs
  \<^verbatim>\<open>perform_create\<close>.
\<close>

definition to_attrs :: "(string \<Rightarrow> bool) \<Rightarrow> db \<Rightarrow> pay_request \<Rightarrow> error + pay_attrs" where
  "to_attrs url_ok s rq =
     (case map_of (orders s) (rq_pedido rq) of
        None \<Rightarrow> Inl (InvalidField ''pedido'')
      | Some ord \<Rightarrow>
          (case DictField (rq_metadata rq) of
             Inl e \<Rightarrow> Inl e
           | Inr md \<Rightarrow>
               (case URLField url_ok (rq_comprobante_url rq) of
                  Inl e \<Rightarrow> Inl e
                | Inr url \<Rightarrow>
                    Inr \<lparr>a_pedido = Some (rq_pedido rq, ord),
                         a_metodo = Some (rq_metodo rq),
                         a_estado = (case rq_estado rq of None \<Rightarrow> ''pendiente'' | Some e \<Rightarrow> e),
                         a_monto_pagado = None,
                         a_metadata = Some (MetaVal md),
                         a_comprobante_url = url,
                         a_comprobante_archivo = rq_comprobante_archivo rq\<rparr>)))"

text \<open>The request brings a proof: \<^verbatim>\<open>comprobante_archivo\<close> or a \<^verbatim>\<open>comprobante_url\<close> that is
  not empty.\<close>

definition proof_given :: "pay_request \<Rightarrow> bool" where
  "proof_given rq = (truthy_str (rq_comprobante_archivo rq) \<or> truthy_str (rq_comprobante_url rq))"

definition pay_create ::
  "(string \<Rightarrow> json option) \<Rightarrow> (string \<Rightarrow> bool) \<Rightarrow> user \<Rightarrow> pay_request \<Rightarrow> db \<Rightarrow> (error + nat) \<times> db" where
  "pay_create loads url_ok u rq s =
     (case to_attrs url_ok s rq of
        Inl e \<Rightarrow> (Inl e, s)
      | Inr attrs \<Rightarrow>
          (case PaySerializer_validate loads None s attrs of
             Inl e \<Rightarrow> (Inl e, s)
           | Inr validated_data \<Rightarrow> perform_create u validated_data s))"

text \<open>
  Modelled from the spec: \<^verbatim>\<open>Pay.complete()\<close> and \<^verbatim>\<open>Pay.fail()\<close> are methods of
  \<^verbatim>\<open>market/models.py\<close>, which is not among the sources. The specification gives the
  transitions into \<^verbatim>\<open>completed\<close> and \<^verbatim>\<open>failed\<close>, final for the payment; the status
  strings are \<^verbatim>\<open>'completado'\<close> and \<^verbatim>\<open>'fallido'\<close>.
\<close>

definition Pay_complete :: "nat \<Rightarrow> pay \<Rightarrow> db \<Rightarrow> db" where
  "Pay_complete k p s = s\<lparr>pagos := save_row k (p\<lparr>pay_estado := ''completado''\<rparr>) (pagos s)\<rparr>"

definition Pay_fail :: "nat \<Rightarrow> pay \<Rightarrow> db \<Rightarrow> db" where
  "Pay_fail k p s = s\<lparr>pagos := save_row k (p\<lparr>pay_estado := ''fallido''\<rparr>) (pagos s)\<rparr>"

text \<open>\<^verbatim>\<open>self.get_object()\<close> of \<^verbatim>\<open>PayViewSet\<close> for a detail action, with no query
  parameter that filters the queryset.\<close>

definition get_pago :: "nat \<Rightarrow> db \<Rightarrow> error + pay" where
  "get_pago k s = (case map_of (pagos s) k of None \<Rightarrow> Inl NotFound | Some p \<Rightarrow> Inr p)"

text \<open>\<^verbatim>\<open>PayViewSet.complete\<close>.\<close>

definition complete :: "user \<Rightarrow> nat \<Rightarrow> db \<Rightarrow> (error + unit) \<times> db" where
  "complete u k s =
     (case get_pago k s of
        Inl e \<Rightarrow> (Inl e, s)
      | Inr pago \<Rightarrow>
          if pay_estado pago \<notin> {''pendiente'', ''en_revision''}
          then (Inl (InvalidStateTransition (pay_estado pago) ''completado''), s)
          else if \<not> staff u then (Inl Unauthorized, s)
          else (Inr (), Pay_complete k pago s))"

text \<open>\<^verbatim>\<open>PayViewSet.fail\<close>: the owner of the order or staff.\<close>

definition fail :: "user \<Rightarrow> nat \<Rightarrow> db \<Rightarrow> (error + unit) \<times> db" where
  "fail u k s =
     (case get_pago k s of
        Inl e \<Rightarrow> (Inl e, s)
      | Inr pago \<Rightarrow>
          if pay_estado pago \<notin> {''pendiente'', ''en_revision''}
          then (Inl (InvalidStateTransition (pay_estado pago) ''fallido''), s)
          else if staff u then (Inr (), Pay_fail k pago s)
          else
            (case map_of (orders s) (pay_pedido pago) of
               None \<Rightarrow> (Inl (ServerError ''DoesNotExist''), s)
             | Some ord \<Rightarrow>
                 if usuario ord \<noteq> uid u then (Inl Unauthorized, s)
                 else (Inr (), Pay_fail k pago s)))"

text \<open>\<^verbatim>\<open>PayViewSet.reject\<close>: staff only, and only a payment in review.\<close>

definition reject :: "user \<Rightarrow> nat \<Rightarrow> db \<Rightarrow> (error + unit) \<times> db" where
  "reject u k s =
     (case get_pago k s of
        Inl e \<Rightarrow> (Inl e, s)
      | Inr pago \<Rightarrow>
          if \<not> staff u then (Inl Unauthorized, s)
          else if pay_estado pago \<noteq> ''en_revision''
          then (Inl (InvalidStateTransition (pay_estado pago) ''fallido''), s)
          else
            let s1 = Pay_fail k pago s in
            (case map_of (orders s1) (pay_pedido pago) of
               None \<Rightarrow> (Inl (ServerError ''DoesNotExist''), s1)
             | Some ord \<Rightarrow>
                 if estado ord = ''en_revision''
                 then (Inr (), s1\<lparr>orders := save_row (pay_pedido pago)
                                              (ord\<lparr>estado := ''pendiente''\<rparr>) (orders s1)\<rparr>)
                 else (Inr (), s1)))"

text \<open>
  \<^verbatim>\<open>PayViewSet.proof\<close>, with the \<^verbatim>\<open>comprobante_archivo\<close> and the \<^verbatim>\<open>comprobante_url\<close> of the
  request (\<open>None\<close> for a missing key).
\<close>

definition proof' :: "user \<Rightarrow> nat \<Rightarrow> string option \<Rightarrow> string option \<Rightarrow> db \<Rightarrow> (error + unit) \<times> db" where
  "proof' u k file url s =
     (case get_pago k s of
        Inl e \<Rightarrow> (Inl e, s)
      | Inr pago \<Rightarrow>
          (case (if staff u then Inr ()
                 else (case map_of (orders s) (pay_pedido pago) of
                         None \<Rightarrow> Inl (ServerError ''DoesNotExist'')
                       | Some ord \<Rightarrow> if usuario ord \<noteq> uid u then Inl Unauthorized else Inr ())) of
             Inl e \<Rightarrow> (Inl e, s)
           | Inr _ \<Rightarrow>
               if pay_estado pago \<notin> {''pendiente''}
               then (Inl (InvalidStateTransition (pay_estado pago) ''en_revision''), s)
               else if \<not> truthy_str file \<and> \<not> truthy_str url then (Inl MissingProof, s)
               else
                 let pago1 = (if truthy_str file then pago\<lparr>comprobante_archivo := file\<rparr> else pago);
                     pago2 = (case url of
                                None \<Rightarrow> pago1
                              | Some x \<Rightarrow> if x \<noteq> [] then pago1\<lparr>comprobante_url := x\<rparr> else pago1);
                     s1 = s\<lparr>pagos := save_row k (pago2\<lparr>pay_estado := ''en_revision''\<rparr>) (pagos s)\<rparr>
                 in (case map_of (orders s1) (pay_pedido pago) of
                       None \<Rightarrow> (Inl (ServerError ''DoesNotExist''), s1)
                     | Some ord \<Rightarrow>
                         if estado ord = ''pendiente''
                         then (Inr (), s1\<lparr>orders := save_row (pay_pedido pago)
                                                      (ord\<lparr>estado := ''en_revision''\<rparr>) (orders s1)\<rparr>)
                         else (Inr (), s1))))"

section \<open>Shipments\<close>

text \<open>
  \<^verbatim>\<open>ShipmentSerializer.validate\<close> and \<^verbatim>\<open>ShipmentSerializer.create\<close>, on the validated
  attributes: the order the \<^verbatim>\<open>pedido\<close> field resolved and the row to insert.
\<close>

definition ShipmentSerializer_validate :: "(nat \<times> order) option \<Rightarrow> error + unit" where
  "ShipmentSerializer_validate pedido_obj =
     (case pedido_obj of
        None \<Rightarrow> Inr ()
      | Some (k, ord) \<Rightarrow>
          if estado ord \<notin> {''pendiente'', ''preparando'', ''en camino'', ''entregado''}
          then Inl (InvalidStateTransition (estado ord) ''envio'')
          else Inr ())"

definition ShipmentSerializer_create :: "nat \<times> order \<Rightarrow> shipment \<Rightarrow> db \<Rightarrow> nat \<times> db" where
  "ShipmentSerializer_create pedido_obj row s =
     (let (k, ord) = pedido_obj;
          s1 = (if estado ord = ''pendiente''
                then s\<lparr>orders := save_row k (ord\<lparr>estado := ''procesando''\<rparr>) (orders s)\<rparr>
                else s);
          (i, t) = insert_row (row\<lparr>envio_pedido := k\<rparr>) (shipments s1)
      in (i, s1\<lparr>shipments := t\<rparr>))"

text \<open>Creating a shipment through the view: the \<^verbatim>\<open>pedido\<close> field is required and must
  name an order.\<close>

definition shipment_create :: "shipment \<Rightarrow> db \<Rightarrow> (error + nat) \<times> db" where
  "shipment_create row s =
     (case map_of (orders s) (envio_pedido row) of
        None \<Rightarrow> (Inl (InvalidField ''pedido''), s)
      | Some ord \<Rightarrow>
          (case ShipmentSerializer_validate (Some (envio_pedido row, ord)) of
             Inl e \<Rightarrow> (Inl e, s)
           | Inr _ \<Rightarrow>
               let (i, s1) = ShipmentSerializer_create (envio_pedido row, ord) row s
               in (Inr i, s1)))"

definition estados_validos :: "string list" where
  "estados_validos = [''pendiente'', ''preparando'', ''en camino'', ''entregado'']"

text \<open>
  \<^verbatim>\<open>ShipmentViewSet.update_status\<close>, with \<^verbatim>\<open>request.data.get('estado')\<close>. The view has no
  permission class, and reads \<^verbatim>\<open>request.user.role\<close> directly. The order of the shipment
  is only read for \<^verbatim>\<open>'en camino'\<close> and \<^verbatim>\<open>'entregado'\<close>.
\<close>

definition promote :: "string \<Rightarrow> shipment \<Rightarrow> db \<Rightarrow> error + db" where
  "promote target sh s =
     (case map_of (orders s) (envio_pedido sh) of
        None \<Rightarrow> Inl (ServerError ''DoesNotExist'')
      | Some ord \<Rightarrow>
          if estado ord \<noteq> target
          then Inr (s\<lparr>orders := save_row (envio_pedido sh) (ord\<lparr>estado := target\<rparr>) (orders s)\<rparr>)
          else Inr s)"

definition update_status :: "user \<Rightarrow> nat \<Rightarrow> string option \<Rightarrow> db \<Rightarrow> (error + unit) \<times> db" where
  "update_status u k nuevo_estado s =
     (case role u of
        None \<Rightarrow> (Inl (ServerError ''AttributeError''), s)
      | Some r \<Rightarrow>
          if r \<notin> {''admin'', ''operator''} then (Inl Unauthorized, s)
          else
            (case map_of (shipments s) k of
               None \<Rightarrow> (Inl NotFound, s)
             | Some sh \<Rightarrow>
                 (case nuevo_estado of
                    None \<Rightarrow> (Inl InvalidEstado, s)
                  | Some ne \<Rightarrow>
                      if ne \<notin> set estados_validos then (Inl InvalidEstado, s)
                      else
                        (case (if ne = ''en camino'' then promote ''enviado'' sh s
                               else if ne = ''entregado'' then promote ''entregado'' sh s
                               else Inr s) of
                           Inl e \<Rightarrow> (Inl e, s)
                         | Inr s1 \<Rightarrow>
                             (Inr (), s1\<lparr>shipments := save_row k (sh\<lparr>envio_estado := ne\<rparr>)
                                                        (shipments s1)\<rparr>)))))"

text \<open>The place of a status in the list \<^verbatim>\<open>estados_validos\<close> of the view, which is the order
  of the chain of shipment states.\<close>

fun position :: "string \<Rightarrow> string list \<Rightarrow> nat option" where
  "position x [] = None"
| "position x (y # ys) = (if x = y then Some 0 else map_option Suc (position x ys))"

section \<open>Sequences of payment requests\<close>

datatype pay_op =
    Create user pay_request
  | Complete user nat
  | Fail user nat

fun step :: "(string \<Rightarrow> json option) \<Rightarrow> (string \<Rightarrow> bool) \<Rightarrow> pay_op \<Rightarrow> db \<Rightarrow> db" where
  "step loads url_ok (Create u rq) s = snd (pay_create loads url_ok u rq s)"
| "step loads url_ok (Complete u k) s = snd (complete u k s)"
| "step loads url_ok (Fail u k) s = snd (fail u k s)"

fun run_ops :: "(string \<Rightarrow> json option) \<Rightarrow> (string \<Rightarrow> bool) \<Rightarrow> pay_op list \<Rightarrow> db \<Rightarrow> db" where
  "run_ops loads url_ok [] s = s"
| "run_ops loads url_ok (x # xs) s = run_ops loads url_ok xs (step loads url_ok x s)"

section \<open>Example states\<close>

definition reloj_a :: product where
  "reloj_a = \<lparr>nombre = ''Reloj A'', precio = 10, stock = 5, stock_vendido = 0, stock_ilimitado = False\<rparr>"

definition reloj_b :: product where
  "reloj_b = \<lparr>nombre = ''Reloj B'', precio = 7, stock = 1, stock_vendido = 0, stock_ilimitado = False\<rparr>"

definition cliente :: user where
  "cliente = \<lparr>uid = 1, role = Some ''client'', address = Some ''Av. Siempre Viva 742''\<rparr>"

definition admin :: user where
  "admin = \<lparr>uid = 9, role = Some ''admin'', address = None\<rparr>"

text \<open>A shop with two products and the cart of the client, holding \<open>qa\<close> units of the first
  product and \<open>qb\<close> of the second (no line for a quantity 0).\<close>

definition shop :: "int \<Rightarrow> int \<Rightarrow> db" where
  "shop qa qb =
     \<lparr>products = [(1, reloj_a), (2, reloj_b)],
      carts = [(1, \<lparr>cart_usuario = 1\<rparr>)],
      cart_items = (if qa = 0 then [] else [(1, \<lparr>carrito = 1, item_producto = 1, item_cantidad = qa\<rparr>)])
                 @ (if qb = 0 then [] else [(2, \<lparr>carrito = 1, item_producto = 2, item_cantidad = qb\<rparr>)]),
      orders = [], details = [], pagos = [], shipments = []\<rparr>"

text \<open>Another checkout sells one unit of product \<open>k\<close> in the meantime.\<close>

definition sells_one :: "nat \<Rightarrow> product table \<Rightarrow> product table" where
  "sells_one k pt =
     (case map_of pt k of
        None \<Rightarrow> pt
      | Some p \<Rightarrow> save_row k (p\<lparr>stock_vendido := stock_vendido p + 1\<rparr>) pt)"

text \<open>One order of the client in the status \<open>e\<close>, with one payment in the status \<open>pe\<close>, one
  detail and one shipment in the status \<open>se\<close>.\<close>

definition pago_1 :: "string \<Rightarrow> pay" where
  "pago_1 pe = \<lparr>pay_pedido = 1, metodo = ''transferencia'', pay_estado = pe, monto_pagado = 20,
                metadata = JObj [], comprobante_url = [], comprobante_archivo = None\<rparr>"

definition pedido_1 :: "string \<Rightarrow> order" where
  "pedido_1 e = \<lparr>usuario = 1, estado = e, total = 20, direccion_envio = ''Av. Siempre Viva 742''\<rparr>"

definition envio_1 :: "string \<Rightarrow> shipment" where
  "envio_1 se = \<lparr>envio_pedido = 1, envio_estado = se, numero_guia = ''G-1'', empresa_envio = ''Correo''\<rparr>"

definition tienda :: "string \<Rightarrow> string \<Rightarrow> string \<Rightarrow> db" where
  "tienda e pe se =
     \<lparr>products = [(1, reloj_a\<lparr>stock := 3\<rparr>)],
      carts = [],
      cart_items = [],
      orders = [(1, pedido_1 e)],
      details = [(1, \<lparr>pedido = 1, producto = 1, cantidad = 2, subtotal = 20\<rparr>)],
      pagos = [(1, pago_1 pe)],
      shipments = [(1, envio_1 se)]\<rparr>"

text \<open>The same shop before any payment or shipment exists.\<close>

definition tienda0 :: "string \<Rightarrow> db" where
  "tienda0 e = (tienda e [] [])\<lparr>pagos := [], shipments := []\<rparr>"

definition pedir_pago :: "string option \<Rightarrow> string option \<Rightarrow> pay_request" where
  "pedir_pago e url =
     \<lparr>rq_pedido = 1, rq_metodo = ''transferencia'', rq_estado = e, rq_metadata = None,
      rq_comprobante_url = url, rq_comprobante_archivo = None\<rparr>"

text \<open>A decoder that knows two strings, for the examples: the JSON of an object with the
  key \<^verbatim>\<open>cvv\<close>, and the JSON of an empty object.\<close>

definition loads_ex :: "string \<Rightarrow> json option" where
  "loads_ex x =
     (if x = ''{\"cvv\": \"123\"}'' then Some (JObj [(''cvv'', JStr ''123'')])
      else if x = ''{}'' then Some (JObj [])
      else None)"

text \<open>A URL validator for the examples: it accepts the strings that start with
  \<^verbatim>\<open>https://\<close>.\<close>

definition url_ex :: "string \<Rightarrow> bool" where
  "url_ex x = (take 8 x = ''https://'')"

text \<open>A request for a card payment for the order 1, with the metadata \<open>m\<close>.\<close>

definition pedir_tarjeta :: "meta_rq option \<Rightarrow> pay_request" where
  "pedir_tarjeta m =
     \<lparr>rq_pedido = 1, rq_metodo = ''tarjeta'', rq_estado = None, rq_metadata = m,
      rq_comprobante_url = None, rq_comprobante_archivo = None\<rparr>"

section \<open>Facts about tables\<close>

lemma foldr_max_ge: "k \<in> set ks \<Longrightarrow> k \<le> foldr max ks (0::nat)"
  by (induction ks) auto

lemma new_id_fresh: "new_id t \<notin> fst ` set t"
proof
  assume "new_id t \<in> fst ` set t"
  then have "new_id t \<in> set (map fst t)" by simp
  then have "new_id t \<le> foldr max (map fst t) 0" by (rule foldr_max_ge)
  then show False by (simp add: new_id_def)
qed

lemma map_of_fresh: "k \<notin> fst ` set t \<Longrightarrow> map_of t k = None"
  by (simp add: map_of_eq_None_iff)

lemma map_of_new_id: "map_of t (new_id t) = None"
  by (rule map_of_fresh [OF new_id_fresh])

lemma map_of_appended: "map_of (t @ [(new_id t, r)]) (new_id t) = Some r"
  by (simp add: map_add_def map_of_new_id)

lemma map_of_save_row: "map_of (save_row k r t) k = Some r"
  by (simp add: save_row_def update_conv')

lemma map_of_save_row_other: "j \<noteq> k \<Longrightarrow> map_of (save_row k r t) j = map_of t j"
  by (simp add: save_row_def update_conv')

section \<open>Facts about checkout\<close>

lemma transfer_ok_keeps:
  "transfer k its s = (Inr x, s') \<Longrightarrow>
     orders s' = orders s \<and> carts s' = carts s \<and> cart_items s' = cart_items s"
proof (induction its arbitrary: s)
  case Nil
  then show ?case by simp
next
  case (Cons it its)
  then show ?case
    by (auto split: option.splits if_splits simp: Let_def)
qed

lemma first_check_names:
  assumes "\<forall>it \<in> set its. map_of pt (item_producto it) \<noteq> None"
    and "\<exists>it \<in> set its. \<exists>p. map_of pt (item_producto it) = Some p
            \<and> exceeds (item_cantidad it) (stock_disponible p)"
  shows "\<exists>it \<in> set its. \<exists>p. map_of pt (item_producto it) = Some p
            \<and> exceeds (item_cantidad it) (stock_disponible p)
            \<and> first_check pt its = Some (InsufficientStock (nombre p))"
  using assms
proof (induction its)
  case Nil
  then show ?case by simp
next
  case (Cons it its)
  then obtain p where p: "map_of pt (item_producto it) = Some p" by auto
  show ?case
  proof (cases "exceeds (item_cantidad it) (stock_disponible p)")
    case True
    with p show ?thesis by auto
  next
    case False
    with Cons p show ?thesis by auto
  qed
qed

lemma items_of_limpiar: "items_of (limpiar c s) c = []"
  by (simp add: items_of_def limpiar_def filter_empty_conv)

lemma checkout_empty:
  "find_cart (carts s) (uid u) = Some c \<Longrightarrow> items_of s c = [] \<Longrightarrow> checkout env u s = (Inl EmptyCart, s)"
  by (simp add: checkout_def get_or_create_cart_def)

lemma checkout_first_fail:
  "find_cart (carts s) (uid u) = Some c \<Longrightarrow> first_check (products s) (items_of s c) = Some e
    \<Longrightarrow> checkout env u s = (Inl e, s)"
  by (cases "items_of s c") (simp_all add: checkout_def get_or_create_cart_def)

lemma checkout_success:
  assumes c: "find_cart (carts s) (uid u) = Some c"
    and ok: "checkout env u s = (Inr r, s')"
  shows "cart_total s c = Inr (ok_total r)
       \<and> map_of (orders s) (pedido_id r) = None
       \<and> (\<exists>a. orders s' = orders s @ [(pedido_id r, \<lparr>usuario = uid u, estado = ''pendiente'', total = ok_total r, direccion_envio = a\<rparr>)])
       \<and> items_of s' c = []"
proof -
  define k where "k = new_id (orders s)"
  define a where "a = (case address u of None \<Rightarrow> ''Direccion no proporcionada por el cliente'' | Some a \<Rightarrow> a)"
  from ok c obtain t where t: "cart_total s c = Inr t"
    by (auto simp: checkout_def get_or_create_cart_def split: if_splits option.splits sum.splits)
  define s2 where "s2 = s\<lparr>orders := orders s @ [(k, \<lparr>usuario = uid u, estado = ''pendiente'', total = t, direccion_envio = a\<rparr>)],
                           products := env (products s)\<rparr>"
  from ok c t obtain s3 x where tr: "transfer k (items_of s2 c) s2 = (Inr x, s3)"
    and r: "r = \<lparr>pedido_id = k, ok_total = t\<rparr>" and s': "s' = limpiar c s3"
    by (auto simp: checkout_def get_or_create_cart_def insert_row_def Let_def k_def a_def s2_def
        split: if_splits option.splits sum.splits prod.splits)
  from transfer_ok_keeps [OF tr] have "orders s3 = orders s2" by simp
  then have "orders s' = orders s @ [(k, \<lparr>usuario = uid u, estado = ''pendiente'', total = t, direccion_envio = a\<rparr>)]"
    by (simp add: s' limpiar_def s2_def)
  moreover have "map_of (orders s) k = None"
    unfolding k_def by (rule map_of_new_id)
  moreover have "items_of s' c = []" by (simp add: s' items_of_limpiar)
  ultimately show ?thesis using t r by auto
qed

lemmas ex_defs = shop_def reloj_a_def reloj_b_def cliente_def admin_def sells_one_def
lemmas ck_defs = checkout_def get_or_create_cart_def find_cart_def items_of_def cart_total_def
  insert_row_def new_id_def save_row_def stock_disponible_def exceeds_def order_delete_def delete_row_def limpiar_def

text \<open>
  What a failure of the second loop undoes: the order is gone, and so is every detail of
  it; the carts and their items are as before. The product table is not part of this.
\<close>

lemma transfer_stock_failure:
  "transfer k its s = (Inl (InsufficientStock n), s') \<Longrightarrow>
     orders s' = delete_row k (orders s)
     \<and> details s' = filter (\<lambda>kd. pedido (snd kd) \<noteq> k) (details s)
     \<and> carts s' = carts s \<and> cart_items s' = cart_items s"
proof (induction its arbitrary: s)
  case Nil
  then show ?case by simp
next
  case (Cons it its)
  show ?case
  proof (cases "map_of (products s) (item_producto it)")
    case None
    with Cons.prems show ?thesis by simp
  next
    case (Some p)
    show ?thesis
    proof (cases "exceeds (item_cantidad it) (stock_disponible p)")
      case True
      with Some Cons.prems show ?thesis by (auto simp: order_delete_def)
    next
      case False
      define d where "d = \<lparr>pedido = k, producto = item_producto it, cantidad = item_cantidad it,
                     subtotal = item_cantidad it * precio p\<rparr>"
      define s2 where "s2 = s\<lparr>details := snd (insert_row d (details s)),
                             products := save_row (item_producto it)
                                      (p\<lparr>stock_vendido := stock_vendido p + item_cantidad it\<rparr>)
                                      (products s)\<rparr>"
      from Some False Cons.prems have "transfer k its s2 = (Inl (InsufficientStock n), s')"
        by (simp add: Let_def s2_def d_def)
      from Cons.IH [OF this] show ?thesis
        by (simp add: s2_def insert_row_def d_def)
    qed
  qed
qed

lemma delete_row_appended: "k \<notin> fst ` set t \<Longrightarrow> delete_row k (t @ [(k, r)]) = t"
  by (induction t) (auto simp: delete_row_def)

lemma lines_total_error: "lines_total pt its = Inl e \<Longrightarrow> e = ServerError ''DoesNotExist''"
  by (induction its arbitrary: e) (auto split: option.splits sum.splits)

lemma checkout_second_failure:
  assumes c: "find_cart (carts s) (uid u) = Some c"
    and p: "first_check (products s) (items_of s c) = None"
    and f: "checkout env u s = (Inl (InsufficientStock n), s')"
  shows "orders s' = orders s \<and> carts s' = carts s \<and> cart_items s' = cart_items s
       \<and> details s' = filter (\<lambda>kd. pedido (snd kd) \<noteq> new_id (orders s)) (details s)
       \<and> ((\<forall>kd \<in> set (details s). pedido (snd kd) \<in> fst ` set (orders s)) \<longrightarrow> details s' = details s)"
proof -
  define k where "k = new_id (orders s)"
  define a where "a = (case address u of None \<Rightarrow> ''Direccion no proporcionada por el cliente'' | Some a \<Rightarrow> a)"
  have "cart_total s c \<noteq> Inl (InsufficientStock n)"
    using lines_total_error [of "products s" "items_of s c" "InsufficientStock n"]
    by (auto simp: cart_total_def)
  with f c p obtain t where t: "cart_total s c = Inr t"
    by (auto simp: checkout_def get_or_create_cart_def split: if_splits option.splits sum.splits)
  define ord where "ord = \<lparr>usuario = uid u, estado = ''pendiente'', total = t, direccion_envio = a\<rparr>"
  define s2 where "s2 = s\<lparr>orders := orders s @ [(k, ord)], products := env (products s)\<rparr>"
  from f c p t have tr: "transfer k (items_of s2 c) s2 = (Inl (InsufficientStock n), s')"
    by (auto simp: checkout_def get_or_create_cart_def insert_row_def Let_def k_def a_def s2_def ord_def
        split: if_splits option.splits sum.splits prod.splits)
  note r = transfer_stock_failure [OF tr]
  have "delete_row k (orders s2) = orders s"
    unfolding s2_def k_def using delete_row_appended [OF new_id_fresh] by simp
  with r have o: "orders s' = orders s" by simp
  from r have d: "details s' = filter (\<lambda>kd. pedido (snd kd) \<noteq> new_id (orders s)) (details s)"
    by (simp add: s2_def k_def)
  have "details s' = details s" if "\<forall>kd \<in> set (details s). pedido (snd kd) \<in> fst ` set (orders s)"
  proof -
    from that new_id_fresh [of "orders s"]
    have "\<forall>kd \<in> set (details s). pedido (snd kd) \<noteq> new_id (orders s)" by metis
    with d show ?thesis by simp
  qed
  with o d r show ?thesis by (simp add: s2_def)
qed

text \<open>
  Claim C1. The specification says that checkout is all-or-nothing: when the second loop
  finds an item that asks for more than the stock read again allows, no order, no detail
  and no stock change of that attempt stays. The handler deletes the order, and its
  details with it, but keeps the sold counters it has already saved. Here the cart holds
  one unit of each of two products, both pass the first loop, and another checkout sells
  the only unit of the second product before the second loop starts: the request fails
  with \<open>InsufficientStock\<close>, leaves no order and no detail, and leaves the sold counter of
  the first product at 1, where it was 0.
\<close>

theorem checkout_keeps_earlier_sales:
  "first_check (products (shop 1 1)) (items_of (shop 1 1) 1) = None
   \<and> map_of (sells_one 2 (products (shop 1 1))) 1 = Some reloj_a
   \<and> fst (checkout (sells_one 2) cliente (shop 1 1)) = Inl (InsufficientStock ''Reloj B'')
   \<and> orders (snd (checkout (sells_one 2) cliente (shop 1 1))) = []
   \<and> details (snd (checkout (sells_one 2) cliente (shop 1 1))) = []
   \<and> map_of (products (snd (checkout (sells_one 2) cliente (shop 1 1)))) 1
       = Some (reloj_a\<lparr>stock_vendido := 1\<rparr>)"
  by (simp add: ex_defs ck_defs)

text \<open>
  Claim C2. For the cart \<open>c\<close> of the user: with no items the checkout fails with
  \<open>EmptyCart\<close>; when some item asks for more than its product has available, it fails
  with \<open>InsufficientStock\<close> naming such a product; in both cases the state is the one
  before. When it succeeds, it has appended an order with a new key, in the status
  \<^verbatim>\<open>'pendiente'\<close>, with the total of the cart as its total, and the cart has no items.
\<close>

theorem checkout_outcomes:
  assumes "find_cart (carts s) (uid u) = Some c"
  shows "(items_of s c = [] \<longrightarrow> checkout env u s = (Inl EmptyCart, s))
    \<and> ((\<forall>it \<in> set (items_of s c). map_of (products s) (item_producto it) \<noteq> None)
        \<and> (\<exists>it \<in> set (items_of s c). \<exists>p. map_of (products s) (item_producto it) = Some p
               \<and> exceeds (item_cantidad it) (stock_disponible p))
       \<longrightarrow> (\<exists>it \<in> set (items_of s c). \<exists>p. map_of (products s) (item_producto it) = Some p
               \<and> exceeds (item_cantidad it) (stock_disponible p)
               \<and> checkout env u s = (Inl (InsufficientStock (nombre p)), s)))
    \<and> (\<forall>r s'. checkout env u s = (Inr r, s') \<longrightarrow>
          cart_total s c = Inr (ok_total r)
        \<and> map_of (orders s) (pedido_id r) = None
        \<and> (\<exists>a. orders s' = orders s @ [(pedido_id r,
               \<lparr>usuario = uid u, estado = ''pendiente'', total = ok_total r, direccion_envio = a\<rparr>)])
        \<and> items_of s' c = [])"
proof (intro conjI impI allI)
  assume "items_of s c = []"
  with assms show "checkout env u s = (Inl EmptyCart, s)" by (rule checkout_empty)
next
  assume h: "(\<forall>it \<in> set (items_of s c). map_of (products s) (item_producto it) \<noteq> None)
        \<and> (\<exists>it \<in> set (items_of s c). \<exists>p. map_of (products s) (item_producto it) = Some p
               \<and> exceeds (item_cantidad it) (stock_disponible p))"
  from first_check_names [of "items_of s c" "products s"] h
  obtain it p where "it \<in> set (items_of s c)" "map_of (products s) (item_producto it) = Some p"
    "exceeds (item_cantidad it) (stock_disponible p)"
    "first_check (products s) (items_of s c) = Some (InsufficientStock (nombre p))"
    by blast
  with checkout_first_fail [OF assms, of "InsufficientStock (nombre p)" env]
  show "\<exists>it \<in> set (items_of s c). \<exists>p. map_of (products s) (item_producto it) = Some p
               \<and> exceeds (item_cantidad it) (stock_disponible p)
               \<and> checkout env u s = (Inl (InsufficientStock (nombre p)), s)"
    by blast
next
  fix r s' assume ok: "checkout env u s = (Inr r, s')"
  from checkout_success [OF assms ok]
  show "cart_total s c = Inr (ok_total r)" "map_of (orders s) (pedido_id r) = None"
    "\<exists>a. orders s' = orders s @ [(pedido_id r,
               \<lparr>usuario = uid u, estado = ''pendiente'', total = ok_total r, direccion_envio = a\<rparr>)]"
    "items_of s' c = []"
    by simp_all
qed

text \<open>
  The three cases of C2 at concrete carts: an empty cart, a cart with 6 units of a product
  that has 5 available, and a cart with 3 units of it (the total is 3 times the price 10).
\<close>

theorem checkout_outcomes_witness:
  "find_cart (carts (shop 0 0)) (uid cliente) = Some 1
   \<and> items_of (shop 0 0) 1 = []
   \<and> checkout id cliente (shop 0 0) = (Inl EmptyCart, shop 0 0)
   \<and> find_cart (carts (shop 6 0)) (uid cliente) = Some 1
   \<and> (\<exists>it \<in> set (items_of (shop 6 0) 1). \<exists>p. map_of (products (shop 6 0)) (item_producto it) = Some p
          \<and> exceeds (item_cantidad it) (stock_disponible p)
          \<and> checkout id cliente (shop 6 0) = (Inl (InsufficientStock (nombre p)), shop 6 0))
   \<and> find_cart (carts (shop 3 0)) (uid cliente) = Some 1
   \<and> fst (checkout id cliente (shop 3 0)) = Inr \<lparr>pedido_id = 1, ok_total = 30\<rparr>
   \<and> cart_total (shop 3 0) 1 = Inr 30
   \<and> map_of (orders (snd (checkout id cliente (shop 3 0)))) 1
        = Some \<lparr>usuario = 1, estado = ''pendiente'', total = 30, direccion_envio = ''Av. Siempre Viva 742''\<rparr>
   \<and> items_of (snd (checkout id cliente (shop 3 0))) 1 = []"
proof -
  have c0: "find_cart (carts (shop 0 0)) (uid cliente) = Some 1"
    and c6: "find_cart (carts (shop 6 0)) (uid cliente) = Some 1"
    and c3: "find_cart (carts (shop 3 0)) (uid cliente) = Some 1"
    by (simp_all add: ex_defs find_cart_def)
  have e0: "items_of (shop 0 0) 1 = []" by (simp add: ex_defs items_of_def)
  have h6: "(\<forall>it \<in> set (items_of (shop 6 0) 1). map_of (products (shop 6 0)) (item_producto it) \<noteq> None)
        \<and> (\<exists>it \<in> set (items_of (shop 6 0) 1). \<exists>p. map_of (products (shop 6 0)) (item_producto it) = Some p
               \<and> exceeds (item_cantidad it) (stock_disponible p))"
    by (simp add: ex_defs items_of_def stock_disponible_def exceeds_def)
  have f3: "fst (checkout id cliente (shop 3 0)) = Inr \<lparr>pedido_id = 1, ok_total = 30\<rparr>"
    by (simp add: ex_defs ck_defs)
  then have r3: "checkout id cliente (shop 3 0) =
      (Inr \<lparr>pedido_id = 1, ok_total = 30\<rparr>, snd (checkout id cliente (shop 3 0)))"
    by (metis prod.collapse)
  note a = checkout_outcomes [OF c0, of id] checkout_outcomes [OF c6, of id] checkout_outcomes [OF c3, of id]
  from a(1) e0 have "checkout id cliente (shop 0 0) = (Inl EmptyCart, shop 0 0)" by blast
  moreover from a(2) h6 have "\<exists>it \<in> set (items_of (shop 6 0) 1). \<exists>p. map_of (products (shop 6 0)) (item_producto it) = Some p
          \<and> exceeds (item_cantidad it) (stock_disponible p)
          \<and> checkout id cliente (shop 6 0) = (Inl (InsufficientStock (nombre p)), shop 6 0)" by blast
  moreover from a(3) r3 have "cart_total (shop 3 0) 1 = Inr (ok_total \<lparr>pedido_id = 1, ok_total = 30\<rparr>)
       \<and> items_of (snd (checkout id cliente (shop 3 0))) 1 = []" by blast
  moreover have "map_of (orders (snd (checkout id cliente (shop 3 0)))) 1
        = Some \<lparr>usuario = 1, estado = ''pendiente'', total = 30, direccion_envio = ''Av. Siempre Viva 742''\<rparr>"
    by (simp add: ex_defs ck_defs)
  ultimately show ?thesis using c0 c6 c3 e0 f3 by simp
qed


section \<open>Facts about orders\<close>

lemma get_order_cases:
  "map_of (orders s) k = Some ord \<Longrightarrow>
     get_order u k s = (if order_visible u ord then Inr ord else Inl NotFound)"
  by (simp add: get_order_def)

lemma get_order_Inr:
  "get_order u k s = Inr ord \<Longrightarrow> map_of (orders s) k = Some ord \<and> order_visible u ord"
  by (auto simp: get_order_def split: option.splits if_splits)

lemma cancel_fails:
  assumes "map_of (orders s) k = Some ord"
    and "estado ord = ''cancelado'' \<or> estado ord \<notin> {''pendiente'', ''procesando''}"
  shows "cancel u k s =
     (Inl (if \<not> order_visible u ord then NotFound
           else if estado ord = ''cancelado'' then AlreadyCancelled
           else InvalidStateTransition (estado ord) ''cancelado''), s)"
  using assms by (auto simp: cancel_def get_order_cases)

lemma cancel_succeeds:
  assumes "map_of (orders s) k = Some ord" and "order_visible u ord"
    and "estado ord \<in> {''pendiente'', ''procesando''}"
  shows "cancel u k s = (Inr (), s\<lparr>orders := save_row k (ord\<lparr>estado := ''cancelado''\<rparr>) (orders s)\<rparr>)"
  using assms by (auto simp: cancel_def get_order_cases)

lemma cancel_Inr:
  assumes "cancel u k s = (Inr x, s')"
  shows "\<exists>ord. map_of (orders s) k = Some ord \<and> order_visible u ord
       \<and> estado ord \<in> {''pendiente'', ''procesando''}
       \<and> s' = s\<lparr>orders := save_row k (ord\<lparr>estado := ''cancelado''\<rparr>) (orders s)\<rparr>"
proof -
  from assms obtain ord where g: "get_order u k s = Inr ord"
    by (cases "get_order u k s") (auto simp: cancel_def)
  from get_order_Inr [OF g] have m: "map_of (orders s) k = Some ord" and v: "order_visible u ord"
    by simp_all
  from assms g have "estado ord \<in> {''pendiente'', ''procesando''}"
    and "s' = s\<lparr>orders := save_row k (ord\<lparr>estado := ''cancelado''\<rparr>) (orders s)\<rparr>"
    by (auto simp: cancel_def split: if_splits)
  with m v show ?thesis by blast
qed

text \<open>
  Claim C5. Cancelling an order that is already cancelled, or whose status is neither
  \<^verbatim>\<open>'pendiente'\<close> nor \<^verbatim>\<open>'procesando'\<close>, fails and leaves the state as it was (with the
  error for an order already cancelled when the user can see the order). A cancel that
  succeeds started from one of those two statuses, sets the status to \<^verbatim>\<open>'cancelado'\<close>,
  leaves the products (so no stock comes back) and the details as they were, and a second
  cancel by the same user then fails with the state unchanged. From those two statuses
  the cancel of a user who can see the order succeeds.
\<close>

theorem cancel_rules:
  "(\<forall>ord. map_of (orders s) k = Some ord
        \<and> (estado ord = ''cancelado'' \<or> estado ord \<notin> {''pendiente'', ''procesando''})
      \<longrightarrow> (\<exists>e. cancel u k s = (Inl e, s))
          \<and> (order_visible u ord \<and> estado ord = ''cancelado''
               \<longrightarrow> cancel u k s = (Inl AlreadyCancelled, s)))
   \<and> (\<forall>x s'. cancel u k s = (Inr x, s') \<longrightarrow>
        (\<exists>ord. map_of (orders s) k = Some ord
           \<and> estado ord \<in> {''pendiente'', ''procesando''}
           \<and> map_of (orders s') k = Some (ord\<lparr>estado := ''cancelado''\<rparr>)
           \<and> products s' = products s \<and> details s' = details s
           \<and> cancel u k s' = (Inl AlreadyCancelled, s')))
   \<and> (\<forall>ord. map_of (orders s) k = Some ord \<and> order_visible u ord
           \<and> estado ord \<in> {''pendiente'', ''procesando''}
      \<longrightarrow> (\<exists>s'. cancel u k s = (Inr (), s')))"
proof (intro conjI allI impI)
  fix ord
  assume h: "map_of (orders s) k = Some ord
        \<and> (estado ord = ''cancelado'' \<or> estado ord \<notin> {''pendiente'', ''procesando''})"
  then show "\<exists>e. cancel u k s = (Inl e, s)"
    using cancel_fails [of s k ord u] by blast
  assume "order_visible u ord \<and> estado ord = ''cancelado''"
  with h show "cancel u k s = (Inl AlreadyCancelled, s)"
    using cancel_fails [of s k ord u] by simp
next
  fix x s'
  assume ok: "cancel u k s = (Inr x, s')"
  from cancel_Inr [OF ok] obtain ord where m: "map_of (orders s) k = Some ord"
    and v: "order_visible u ord" and e: "estado ord \<in> {''pendiente'', ''procesando''}"
    and s': "s' = s\<lparr>orders := save_row k (ord\<lparr>estado := ''cancelado''\<rparr>) (orders s)\<rparr>"
    by blast
  have m': "map_of (orders s') k = Some (ord\<lparr>estado := ''cancelado''\<rparr>)"
    by (simp add: s' map_of_save_row)
  have v': "order_visible u (ord\<lparr>estado := ''cancelado''\<rparr>)"
    using v by (simp add: order_visible_def)
  have again: "cancel u k s' = (Inl AlreadyCancelled, s')"
    using cancel_fails [OF m', of u] v' by simp
  from m e m' again s'
  show "\<exists>ord. map_of (orders s) k = Some ord
           \<and> estado ord \<in> {''pendiente'', ''procesando''}
           \<and> map_of (orders s') k = Some (ord\<lparr>estado := ''cancelado''\<rparr>)
           \<and> products s' = products s \<and> details s' = details s
           \<and> cancel u k s' = (Inl AlreadyCancelled, s')"
    by auto
next
  fix ord
  assume "map_of (orders s) k = Some ord \<and> order_visible u ord
           \<and> estado ord \<in> {''pendiente'', ''procesando''}"
  then show "\<exists>s'. cancel u k s = (Inr (), s')"
    using cancel_succeeds [of s k ord u] by blast
qed

lemmas tienda_defs = tienda_def tienda0_def pedido_1_def pago_1_def envio_1_def reloj_a_def
  cliente_def admin_def

text \<open>C5 at a pending order of the client, cancelled twice, and at a shipped order.\<close>

theorem cancel_rules_witness:
  "map_of (orders (tienda ''pendiente'' ''pendiente'' ''pendiente'')) 1 = Some (pedido_1 ''pendiente'')
   \<and> order_visible cliente (pedido_1 ''pendiente'')
   \<and> fst (cancel cliente 1 (tienda ''pendiente'' ''pendiente'' ''pendiente'')) = Inr ()
   \<and> products (snd (cancel cliente 1 (tienda ''pendiente'' ''pendiente'' ''pendiente'')))
        = products (tienda ''pendiente'' ''pendiente'' ''pendiente'')
   \<and> cancel cliente 1 (snd (cancel cliente 1 (tienda ''pendiente'' ''pendiente'' ''pendiente'')))
        = (Inl AlreadyCancelled, snd (cancel cliente 1 (tienda ''pendiente'' ''pendiente'' ''pendiente'')))
   \<and> map_of (orders (tienda ''enviado'' ''pendiente'' ''pendiente'')) 1 = Some (pedido_1 ''enviado'')
   \<and> (\<exists>e. cancel cliente 1 (tienda ''enviado'' ''pendiente'' ''pendiente'')
          = (Inl e, tienda ''enviado'' ''pendiente'' ''pendiente''))"
proof -
  let ?s = "tienda ''pendiente'' ''pendiente'' ''pendiente''"
  let ?t = "tienda ''enviado'' ''pendiente'' ''pendiente''"
  have m: "map_of (orders ?s) 1 = Some (pedido_1 ''pendiente'')" by (simp add: tienda_def)
  have v: "order_visible cliente (pedido_1 ''pendiente'')"
    by (simp add: order_visible_def pedido_1_def cliente_def)
  have e: "estado (pedido_1 ''pendiente'') \<in> {''pendiente'', ''procesando''}"
    by (simp add: pedido_1_def)
  have mt: "map_of (orders ?t) 1 = Some (pedido_1 ''enviado'')" by (simp add: tienda_def)
  have et: "estado (pedido_1 ''enviado'') = ''cancelado'' \<or> estado (pedido_1 ''enviado'') \<notin> {''pendiente'', ''procesando''}"
    by (simp add: pedido_1_def)
  note r = cancel_rules [of ?s 1 cliente] and rt = cancel_rules [of ?t 1 cliente]
  from r m v e obtain s' where ok: "cancel cliente 1 ?s = (Inr (), s')" by blast
  with r have "products s' = products ?s" "cancel cliente 1 s' = (Inl AlreadyCancelled, s')"
    by blast+
  moreover from rt mt et have "\<exists>e. cancel cliente 1 ?t = (Inl e, ?t)" by blast
  ultimately show ?thesis using m v mt ok by simp
qed

section \<open>Locked orders\<close>

text \<open>
  Claim C6. For an order in the status \<^verbatim>\<open>'entregado'\<close> or \<^verbatim>\<open>'cancelado'\<close>, an update of the
  order (with or without changes to its details) and the removal of a detail both fail and
  leave the whole state as it was, so the order, its details and the stock of the products
  too. The error is \<open>OrderLocked\<close> with the status for a user who can see the order; for
  another user the order is not found.
\<close>

theorem terminal_orders_locked:
  assumes "map_of (orders s) k = Some ord"
    and "estado ord \<in> {''entregado'', ''cancelado''}"
  shows "perform_update u k upd detalles s
           = (Inl (if order_visible u ord then OrderLocked (estado ord) else NotFound), s)
       \<and> remove_detail u k d s
           = (Inl (if order_visible u ord then OrderLocked (estado ord) else NotFound), s)"
  using assms by (auto simp: perform_update_def remove_detail_def get_order_cases)

text \<open>C6 at a delivered order: an update by its owner and a removal by an administrator.\<close>

theorem terminal_orders_locked_witness:
  "map_of (orders (tienda ''entregado'' ''completado'' ''entregado'')) 1 = Some (pedido_1 ''entregado'')
   \<and> estado (pedido_1 ''entregado'') \<in> {''entregado'', ''cancelado''}
   \<and> perform_update cliente 1 \<lparr>upd_usuario = None, upd_estado = Some ''pendiente'', upd_direccion_envio = None\<rparr>
        [\<lparr>dd_producto = Some 1, dd_cantidad = Some 1, dd_id = Some 1\<rparr>]
        (tienda ''entregado'' ''completado'' ''entregado'')
       = (Inl (OrderLocked ''entregado''), tienda ''entregado'' ''completado'' ''entregado'')
   \<and> remove_detail admin 1 1 (tienda ''entregado'' ''completado'' ''entregado'')
       = (Inl (OrderLocked ''entregado''), tienda ''entregado'' ''completado'' ''entregado'')"
proof -
  let ?s = "tienda ''entregado'' ''completado'' ''entregado''"
  have m: "map_of (orders ?s) 1 = Some (pedido_1 ''entregado'')" by (simp add: tienda_def)
  have e: "estado (pedido_1 ''entregado'') \<in> {''entregado'', ''cancelado''}" by (simp add: pedido_1_def)
  have v: "order_visible cliente (pedido_1 ''entregado'')" "order_visible admin (pedido_1 ''entregado'')"
    by (simp_all add: order_visible_def pedido_1_def cliente_def admin_def staff_def)
  have ee: "estado (pedido_1 ''entregado'') = ''entregado''" by (simp add: pedido_1_def)
  from terminal_orders_locked [OF m e, of cliente] terminal_orders_locked [OF m e, of admin] v m e ee
  show ?thesis by simp
qed

section \<open>Facts about shipments\<close>

lemma promote_result:
  "map_of (orders s) (envio_pedido sh) = Some ord \<Longrightarrow>
     \<exists>s1. promote target sh s = Inr s1
        \<and> map_of (orders s1) (envio_pedido sh) = Some (ord\<lparr>estado := target\<rparr>)
        \<and> shipments s1 = shipments s"
  by (auto simp: promote_def map_of_save_row)

lemma promote_shipments: "promote target sh s = Inr s1 \<Longrightarrow> shipments s1 = shipments s"
  by (auto simp: promote_def split: option.splits if_splits)

lemma shipment_create_pending:
  assumes "map_of (orders s) (envio_pedido row) = Some ord" and "estado ord = ''pendiente''"
  shows "\<exists>i s'. shipment_create row s = (Inr i, s')
       \<and> map_of (orders s') (envio_pedido row) = Some (ord\<lparr>estado := ''procesando''\<rparr>)
       \<and> map_of (shipments s') i = Some row"
  using assms
  by (simp add: shipment_create_def ShipmentSerializer_validate_def ShipmentSerializer_create_def
      insert_row_def map_of_save_row map_add_def map_of_new_id)

lemma update_status_promotes:
  assumes st: "staff u" and sh: "map_of (shipments s) k = Some sh"
    and ord: "map_of (orders s) (envio_pedido sh) = Some ord"
    and ne: "(ne, target) \<in> {(''en camino'', ''enviado''), (''entregado'', ''entregado'')}"
  shows "\<exists>s'. update_status u k (Some ne) s = (Inr (), s')
       \<and> map_of (orders s') (envio_pedido sh) = Some (ord\<lparr>estado := target\<rparr>)
       \<and> map_of (shipments s') k = Some (sh\<lparr>envio_estado := ne\<rparr>)"
proof -
  from st obtain r where r: "role u = Some r" "r \<in> {''admin'', ''operator''}"
    by (auto simp: staff_def)
  from promote_result [OF ord, of target] obtain s1 where
    p: "promote target sh s = Inr s1"
    and o1: "map_of (orders s1) (envio_pedido sh) = Some (ord\<lparr>estado := target\<rparr>)"
    by blast
  from ne have v: "ne \<in> set estados_validos" by (auto simp: estados_validos_def)
  from ne have br: "(if ne = ''en camino'' then promote ''enviado'' sh s
                     else if ne = ''entregado'' then promote ''entregado'' sh s
                     else Inr s) = promote target sh s"
    by auto
  have "update_status u k (Some ne) s
        = (Inr (), s1\<lparr>shipments := save_row k (sh\<lparr>envio_estado := ne\<rparr>) (shipments s1)\<rparr>)"
    unfolding update_status_def using r sh v by (simp add: br p)
  then show ?thesis using o1 by (simp add: map_of_save_row)
qed

text \<open>
  Claim C8. Creating a shipment for an order in the status \<^verbatim>\<open>'pendiente'\<close> succeeds and
  leaves the order in \<^verbatim>\<open>'procesando'\<close>. For a shipment whose order exists, an
  administrator or operator who sets the status of the shipment to \<^verbatim>\<open>'en camino'\<close> leaves
  the order in \<^verbatim>\<open>'enviado'\<close>, and one who sets it to \<^verbatim>\<open>'entregado'\<close> leaves the order in
  \<^verbatim>\<open>'entregado'\<close>; the shipment has the new status.
\<close>

theorem shipment_promotes_order:
  "(\<forall>ord. map_of (orders s) (envio_pedido row) = Some ord \<and> estado ord = ''pendiente''
      \<longrightarrow> (\<exists>i s'. shipment_create row s = (Inr i, s')
             \<and> map_of (orders s') (envio_pedido row) = Some (ord\<lparr>estado := ''procesando''\<rparr>)))
   \<and> (\<forall>sh ord. staff u \<and> map_of (shipments s) k = Some sh
            \<and> map_of (orders s) (envio_pedido sh) = Some ord
      \<longrightarrow> (\<exists>s'. update_status u k (Some ''en camino'') s = (Inr (), s')
             \<and> map_of (shipments s') k = Some (sh\<lparr>envio_estado := ''en camino''\<rparr>)
             \<and> map_of (orders s') (envio_pedido sh) = Some (ord\<lparr>estado := ''enviado''\<rparr>))
        \<and> (\<exists>s'. update_status u k (Some ''entregado'') s = (Inr (), s')
             \<and> map_of (shipments s') k = Some (sh\<lparr>envio_estado := ''entregado''\<rparr>)
             \<and> map_of (orders s') (envio_pedido sh) = Some (ord\<lparr>estado := ''entregado''\<rparr>)))"
proof (intro conjI allI impI)
  fix ord
  assume "map_of (orders s) (envio_pedido row) = Some ord \<and> estado ord = ''pendiente''"
  then show "\<exists>i s'. shipment_create row s = (Inr i, s')
             \<and> map_of (orders s') (envio_pedido row) = Some (ord\<lparr>estado := ''procesando''\<rparr>)"
    using shipment_create_pending [of s row ord] by blast
next
  fix sh ord
  assume h: "staff u \<and> map_of (shipments s) k = Some sh
            \<and> map_of (orders s) (envio_pedido sh) = Some ord"
  then show "\<exists>s'. update_status u k (Some ''en camino'') s = (Inr (), s')
             \<and> map_of (shipments s') k = Some (sh\<lparr>envio_estado := ''en camino''\<rparr>)
             \<and> map_of (orders s') (envio_pedido sh) = Some (ord\<lparr>estado := ''enviado''\<rparr>)"
    using update_status_promotes [of u s k sh ord "''en camino''" "''enviado''"] by auto
  from h show "\<exists>s'. update_status u k (Some ''entregado'') s = (Inr (), s')
             \<and> map_of (shipments s') k = Some (sh\<lparr>envio_estado := ''entregado''\<rparr>)
             \<and> map_of (orders s') (envio_pedido sh) = Some (ord\<lparr>estado := ''entregado''\<rparr>)"
    using update_status_promotes [of u s k sh ord "''entregado''" "''entregado''"] by auto
qed

text \<open>C8 at a pending order without shipment, and at a shipment in preparation.\<close>

theorem shipment_promotes_order_witness:
  "map_of (orders (tienda0 ''pendiente'')) (envio_pedido (envio_1 ''pendiente'')) = Some (pedido_1 ''pendiente'')
   \<and> estado (pedido_1 ''pendiente'') = ''pendiente''
   \<and> (\<exists>i s'. shipment_create (envio_1 ''pendiente'') (tienda0 ''pendiente'') = (Inr i, s')
          \<and> map_of (orders s') 1 = Some (pedido_1 ''procesando''))
   \<and> staff admin
   \<and> map_of (shipments (tienda ''procesando'' ''completado'' ''preparando'')) 1 = Some (envio_1 ''preparando'')
   \<and> map_of (orders (tienda ''procesando'' ''completado'' ''preparando'')) 1 = Some (pedido_1 ''procesando'')
   \<and> (\<exists>s'. update_status admin 1 (Some ''en camino'') (tienda ''procesando'' ''completado'' ''preparando'') = (Inr (), s')
          \<and> map_of (shipments s') 1 = Some (envio_1 ''en camino'')
          \<and> map_of (orders s') 1 = Some (pedido_1 ''enviado''))
   \<and> (\<exists>s'. update_status admin 1 (Some ''entregado'') (tienda ''procesando'' ''completado'' ''preparando'') = (Inr (), s')
          \<and> map_of (shipments s') 1 = Some (envio_1 ''entregado'')
          \<and> map_of (orders s') 1 = Some (pedido_1 ''entregado''))"
proof -
  let ?t = "tienda0 ''pendiente''" and ?s = "tienda ''procesando'' ''completado'' ''preparando''"
  have p: "envio_pedido (envio_1 x) = 1" for x by (simp add: envio_1_def)
  have a: "map_of (orders ?t) (envio_pedido (envio_1 ''pendiente'')) = Some (pedido_1 ''pendiente'')"
    by (simp add: tienda_def tienda0_def envio_1_def)
  have b: "estado (pedido_1 ''pendiente'') = ''pendiente''" by (simp add: pedido_1_def)
  have c: "staff admin" by (simp add: staff_def admin_def)
  have d: "map_of (shipments ?s) 1 = Some (envio_1 ''preparando'')" by (simp add: tienda_def)
  have e: "map_of (orders ?s) (envio_pedido (envio_1 ''preparando'')) = Some (pedido_1 ''procesando'')"
    by (simp add: tienda_def envio_1_def)
  have f: "(pedido_1 x)\<lparr>estado := y\<rparr> = pedido_1 y" "(envio_1 x)\<lparr>envio_estado := y\<rparr> = envio_1 y" for x y
    by (simp_all add: pedido_1_def envio_1_def)
  from shipment_promotes_order [of ?t "envio_1 ''pendiente''" admin 1] a b
  have "\<exists>i s'. shipment_create (envio_1 ''pendiente'') ?t = (Inr i, s')
          \<and> map_of (orders s') (envio_pedido (envio_1 ''pendiente''))
               = Some ((pedido_1 ''pendiente'')\<lparr>estado := ''procesando''\<rparr>)"
    by blast
  then have 1: "\<exists>i s'. shipment_create (envio_1 ''pendiente'') ?t = (Inr i, s')
          \<and> map_of (orders s') 1 = Some (pedido_1 ''procesando'')"
    by (simp add: p f)
  from shipment_promotes_order [of ?s "envio_1 ''pendiente''" admin 1] c d e
  have "(\<exists>s'. update_status admin 1 (Some ''en camino'') ?s = (Inr (), s')
          \<and> map_of (shipments s') 1 = Some ((envio_1 ''preparando'')\<lparr>envio_estado := ''en camino''\<rparr>)
          \<and> map_of (orders s') (envio_pedido (envio_1 ''preparando''))
               = Some ((pedido_1 ''procesando'')\<lparr>estado := ''enviado''\<rparr>))
   \<and> (\<exists>s'. update_status admin 1 (Some ''entregado'') ?s = (Inr (), s')
          \<and> map_of (shipments s') 1 = Some ((envio_1 ''preparando'')\<lparr>envio_estado := ''entregado''\<rparr>)
          \<and> map_of (orders s') (envio_pedido (envio_1 ''preparando''))
               = Some ((pedido_1 ''procesando'')\<lparr>estado := ''entregado''\<rparr>))"
    by blast
  then have 2: "(\<exists>s'. update_status admin 1 (Some ''en camino'') ?s = (Inr (), s')
          \<and> map_of (shipments s') 1 = Some (envio_1 ''en camino'')
          \<and> map_of (orders s') 1 = Some (pedido_1 ''enviado''))
   \<and> (\<exists>s'. update_status admin 1 (Some ''entregado'') ?s = (Inr (), s')
          \<and> map_of (shipments s') 1 = Some (envio_1 ''entregado'')
          \<and> map_of (orders s') 1 = Some (pedido_1 ''entregado''))"
    by (simp add: p f)
  from a b d e have "map_of (orders ?t) (envio_pedido (envio_1 ''pendiente'')) = Some (pedido_1 ''pendiente'')"
    "estado (pedido_1 ''pendiente'') = ''pendiente''"
    "map_of (shipments ?s) 1 = Some (envio_1 ''preparando'')"
    "map_of (orders ?s) 1 = Some (pedido_1 ''procesando'')"
    by (simp_all add: p)
  with 1 2 c show ?thesis by blast
qed

section \<open>Shipment status changes\<close>

lemma update_status_Inr:
  assumes "update_status u k ne s = (Inr x, s')"
  shows "\<exists>e sh. ne = Some e \<and> e \<in> set estados_validos \<and> staff u
       \<and> map_of (shipments s) k = Some sh
       \<and> map_of (shipments s') k = Some (sh\<lparr>envio_estado := e\<rparr>)"
  using assms
  by (auto simp: update_status_def staff_def map_of_save_row
      split: option.splits if_splits sum.splits dest: promote_shipments)

lemma update_status_any:
  assumes st: "staff u" and sh: "map_of (shipments s) k = Some sh"
    and ord: "map_of (orders s) (envio_pedido sh) = Some ord"
    and v: "e \<in> set estados_validos"
  shows "\<exists>s'. update_status u k (Some e) s = (Inr (), s')
       \<and> map_of (shipments s') k = Some (sh\<lparr>envio_estado := e\<rparr>)"
proof -
  from st obtain r where r: "role u = Some r" "r \<in> {''admin'', ''operator''}"
    by (auto simp: staff_def)
  from promote_result [OF ord] obtain s1 s2
    where "promote ''enviado'' sh s = Inr s1" "promote ''entregado'' sh s = Inr s2" by blast
  then have "\<exists>s3. (if e = ''en camino'' then promote ''enviado'' sh s
                     else if e = ''entregado'' then promote ''entregado'' sh s
                     else Inr s) = Inr s3"
    by simp
  then obtain s3 where br: "(if e = ''en camino'' then promote ''enviado'' sh s
                     else if e = ''entregado'' then promote ''entregado'' sh s
                     else Inr s) = Inr s3"
    by blast
  have "update_status u k (Some e) s
        = (Inr (), s3\<lparr>shipments := save_row k (sh\<lparr>envio_estado := e\<rparr>) (shipments s3)\<rparr>)"
    unfolding update_status_def using r sh v by (simp add: br)
  then show ?thesis by (simp add: map_of_save_row)
qed

text \<open>
  Claim C9 says that no accepted change of status moves a shipment back along the chain
  \<^verbatim>\<open>pendiente, preparando, en camino, entregado\<close>. The view checks that the new status is
  one of the four and nothing else: an administrator moves a delivered shipment (the last
  place of the chain) back to \<^verbatim>\<open>'pendiente'\<close> (the first).
\<close>

theorem shipment_moves_backwards:
  "fst (update_status admin 1 (Some ''pendiente'') (tienda ''entregado'' ''completado'' ''entregado'')) = Inr ()
   \<and> map_option envio_estado (map_of (shipments (tienda ''entregado'' ''completado'' ''entregado'')) 1)
        = Some ''entregado''
   \<and> map_option envio_estado
        (map_of (shipments (snd (update_status admin 1 (Some ''pendiente'')
                                   (tienda ''entregado'' ''completado'' ''entregado'')))) 1)
        = Some ''pendiente''
   \<and> position ''entregado'' estados_validos = Some 3
   \<and> position ''pendiente'' estados_validos = Some 0"
  by (simp add: update_status_def tienda_defs estados_validos_def save_row_def)

text \<open>
  Claim C9 as amended. An accepted change of status asked for one of the four valid
  statuses and leaves the shipment in exactly that status; and for an administrator or
  operator, a shipment that exists and whose order exists, every one of the four statuses
  is accepted, whatever the status of the shipment was.
\<close>

theorem shipment_status_is_the_requested_one:
  "(\<forall>x s'. update_status u k ne s = (Inr x, s') \<longrightarrow>
       (\<exists>e sh. ne = Some e \<and> e \<in> set estados_validos
          \<and> map_of (shipments s) k = Some sh
          \<and> map_of (shipments s') k = Some (sh\<lparr>envio_estado := e\<rparr>)))
   \<and> (\<forall>sh ord e. staff u \<and> map_of (shipments s) k = Some sh
           \<and> map_of (orders s) (envio_pedido sh) = Some ord \<and> e \<in> set estados_validos
       \<longrightarrow> (\<exists>s'. update_status u k (Some e) s = (Inr (), s')
              \<and> map_of (shipments s') k = Some (sh\<lparr>envio_estado := e\<rparr>)))"
proof (intro conjI allI impI)
  fix x s'
  assume "update_status u k ne s = (Inr x, s')"
  from update_status_Inr [OF this]
  show "\<exists>e sh. ne = Some e \<and> e \<in> set estados_validos
          \<and> map_of (shipments s) k = Some sh
          \<and> map_of (shipments s') k = Some (sh\<lparr>envio_estado := e\<rparr>)"
    by blast
next
  fix sh ord e
  assume "staff u \<and> map_of (shipments s) k = Some sh
           \<and> map_of (orders s) (envio_pedido sh) = Some ord \<and> e \<in> set estados_validos"
  then show "\<exists>s'. update_status u k (Some e) s = (Inr (), s')
              \<and> map_of (shipments s') k = Some (sh\<lparr>envio_estado := e\<rparr>)"
    using update_status_any [of u s k sh ord e] by blast
qed

text \<open>The amended C9 at a delivered shipment set to \<^verbatim>\<open>'preparando'\<close>.\<close>

theorem shipment_status_is_the_requested_one_witness:
  "staff admin
   \<and> map_of (shipments (tienda ''entregado'' ''completado'' ''entregado'')) 1 = Some (envio_1 ''entregado'')
   \<and> map_of (orders (tienda ''entregado'' ''completado'' ''entregado'')) 1 = Some (pedido_1 ''entregado'')
   \<and> ''preparando'' \<in> set estados_validos
   \<and> (\<exists>s'. update_status admin 1 (Some ''preparando'') (tienda ''entregado'' ''completado'' ''entregado'') = (Inr (), s')
          \<and> map_of (shipments s') 1 = Some (envio_1 ''preparando''))"
proof -
  let ?s = "tienda ''entregado'' ''completado'' ''entregado''"
  have c: "staff admin" by (simp add: staff_def admin_def)
  have d: "map_of (shipments ?s) 1 = Some (envio_1 ''entregado'')" by (simp add: tienda_def)
  have e: "map_of (orders ?s) (envio_pedido (envio_1 ''entregado'')) = Some (pedido_1 ''entregado'')"
    by (simp add: tienda_def envio_1_def)
  have v: "''preparando'' \<in> set estados_validos" by (simp add: estados_validos_def)
  have f: "(envio_1 x)\<lparr>envio_estado := y\<rparr> = envio_1 y" for x y by (simp add: envio_1_def)
  from shipment_status_is_the_requested_one [of admin 1 "Some ''preparando''" ?s] c d e v
  have "\<exists>s'. update_status admin 1 (Some ''preparando'') ?s = (Inr (), s')
          \<and> map_of (shipments s') 1 = Some ((envio_1 ''entregado'')\<lparr>envio_estado := ''preparando''\<rparr>)"
    by blast
  then have "\<exists>s'. update_status admin 1 (Some ''preparando'') ?s = (Inr (), s')
          \<and> map_of (shipments s') 1 = Some (envio_1 ''preparando'')"
    by (simp add: f)
  moreover from e have "map_of (orders ?s) 1 = Some (pedido_1 ''entregado'')"
    by (simp add: envio_1_def)
  ultimately show ?thesis using c d v by blast
qed

section \<open>Facts about the validation of payments\<close>

lemma py_any_obj:
  "py_any (map (\<lambda>k. py_in k (JObj d)) ks) = Inr (\<exists>k \<in> set ks. k \<in> fst ` set d)"
  by (induction ks) auto

lemma decode_raw_fails:
  "a_metadata attrs = Some (MetaStr x) \<Longrightarrow> x \<noteq> [] \<Longrightarrow> loads x = None
     \<Longrightarrow> decode_metadata loads attrs = Inl InvalidMetadata"
  by (simp add: decode_metadata_def)

lemma decode_raw:
  "a_metadata attrs = Some (MetaStr x) \<Longrightarrow> x \<noteq> [] \<Longrightarrow> loads x = Some v
     \<Longrightarrow> decode_metadata loads attrs = Inr (v, attrs\<lparr>a_metadata := Some (MetaVal v)\<rparr>)"
  by (simp add: decode_metadata_def)

lemma decode_obj:
  "a_metadata attrs = Some (MetaVal (JObj d)) \<Longrightarrow> d \<noteq> []
     \<Longrightarrow> decode_metadata loads attrs = Inr (JObj d, attrs)"
  by (simp add: decode_metadata_def)

lemma validate_forbidden:
  assumes "decode_metadata loads attrs = Inr (JObj d, a1)"
    and "a_metodo attrs = Some ''tarjeta''" and "k \<in> set forbidden" and "k \<in> fst ` set d"
  shows "PaySerializer_validate loads inst s attrs = Inl ForbiddenSensitiveData"
proof -
  from assms(3,4) have "py_any (map (\<lambda>k. py_in k (JObj d)) forbidden) = Inr True"
    unfolding py_any_obj by blast
  with assms(1,2) show ?thesis
    by (simp add: PaySerializer_validate_def truthy_str_def)
qed

lemma validate_Inr:
  assumes "PaySerializer_validate loads inst s attrs = Inr a'"
  shows "\<exists>v. decode_metadata loads attrs = Inr (v, a')"
  using assms
  by (auto simp: PaySerializer_validate_def Let_def split: sum.splits prod.splits if_splits option.splits)

lemma decode_Inr_raw:
  assumes "decode_metadata loads attrs = Inr (v, a')" and "a_metadata attrs = Some (MetaStr x)" and "x \<noteq> []"
  shows "loads x = Some v \<and> a' = attrs\<lparr>a_metadata := Some (MetaVal v)\<rparr>"
  using assms by (auto simp: decode_metadata_def split: option.splits)

text \<open>
  What \<^verbatim>\<open>validate\<close> does with a raw string, were one to reach it: a string that is not
  empty and does not decode is rejected with \<open>InvalidMetadata\<close>; when attributes with such
  a string are accepted, the string decoded and the decoded value has taken its place; and
  a card payment whose metadata, given as a dictionary or decoded from such a string, has
  one of the keys of \<open>forbidden\<close> is rejected with \<open>ForbiddenSensitiveData\<close>.
\<close>

lemma validate_metadata:
  "(\<forall>x. a_metadata attrs = Some (MetaStr x) \<and> x \<noteq> [] \<and> loads x = None
        \<longrightarrow> PaySerializer_validate loads inst s attrs = Inl InvalidMetadata)
   \<and> (\<forall>x a'. a_metadata attrs = Some (MetaStr x) \<and> x \<noteq> []
           \<and> PaySerializer_validate loads inst s attrs = Inr a'
        \<longrightarrow> (\<exists>v. loads x = Some v \<and> a' = attrs\<lparr>a_metadata := Some (MetaVal v)\<rparr>))
   \<and> (\<forall>d k. a_metodo attrs = Some ''tarjeta'' \<and> k \<in> set forbidden \<and> k \<in> fst ` set d
           \<and> (a_metadata attrs = Some (MetaVal (JObj d))
                \<or> (\<exists>x. a_metadata attrs = Some (MetaStr x) \<and> x \<noteq> [] \<and> loads x = Some (JObj d)))
        \<longrightarrow> PaySerializer_validate loads inst s attrs = Inl ForbiddenSensitiveData)"
proof (intro conjI allI impI)
  fix x
  assume "a_metadata attrs = Some (MetaStr x) \<and> x \<noteq> [] \<and> loads x = None"
  then have "decode_metadata loads attrs = Inl InvalidMetadata"
    using decode_raw_fails by blast
  then show "PaySerializer_validate loads inst s attrs = Inl InvalidMetadata"
    by (simp add: PaySerializer_validate_def)
next
  fix x a'
  assume h: "a_metadata attrs = Some (MetaStr x) \<and> x \<noteq> []
           \<and> PaySerializer_validate loads inst s attrs = Inr a'"
  then obtain v where "decode_metadata loads attrs = Inr (v, a')"
    using validate_Inr by blast
  with h show "\<exists>v. loads x = Some v \<and> a' = attrs\<lparr>a_metadata := Some (MetaVal v)\<rparr>"
    using decode_Inr_raw by blast
next
  fix d k
  assume h: "a_metodo attrs = Some ''tarjeta'' \<and> k \<in> set forbidden \<and> k \<in> fst ` set d
           \<and> (a_metadata attrs = Some (MetaVal (JObj d))
                \<or> (\<exists>x. a_metadata attrs = Some (MetaStr x) \<and> x \<noteq> [] \<and> loads x = Some (JObj d)))"
  then have "d \<noteq> []" by auto
  with h have "\<exists>a1. decode_metadata loads attrs = Inr (JObj d, a1)"
    using decode_obj [of attrs d loads] decode_raw [of attrs _ loads "JObj d"] by blast
  then obtain a1 where "decode_metadata loads attrs = Inr (JObj d, a1)" by blast
  with h show "PaySerializer_validate loads inst s attrs = Inl ForbiddenSensitiveData"
    using validate_forbidden by blast
qed

section \<open>Facts about the creation of payments\<close>

lemma validate_pedido:
  assumes "PaySerializer_validate loads inst s attrs = Inr a'"
    and "a_pedido attrs = Some (k, ord)"
  shows "estado ord \<noteq> ''pagado'' \<and> open_pagos s k = []"
  using assms
  by (auto simp: PaySerializer_validate_def Let_def split: sum.splits prod.splits if_splits)

lemma decode_keeps:
  assumes "decode_metadata loads attrs = Inr (v, a')"
  shows "a_pedido a' = a_pedido attrs \<and> a_metodo a' = a_metodo attrs \<and> a_estado a' = a_estado attrs
       \<and> a_monto_pagado a' = a_monto_pagado attrs
       \<and> a_comprobante_url a' = a_comprobante_url attrs
       \<and> a_comprobante_archivo a' = a_comprobante_archivo attrs"
  using assms by (auto simp: decode_metadata_def Let_def split: meta_in.splits option.splits if_splits)

lemma validate_keeps:
  assumes "PaySerializer_validate loads inst s attrs = Inr a'"
  shows "a_pedido a' = a_pedido attrs \<and> a_metodo a' = a_metodo attrs \<and> a_estado a' = a_estado attrs
       \<and> a_monto_pagado a' = a_monto_pagado attrs
       \<and> a_comprobante_url a' = a_comprobante_url attrs
       \<and> a_comprobante_archivo a' = a_comprobante_archivo attrs"
  using validate_Inr [OF assms] decode_keeps by blast

lemma perform_create_Inl: "perform_create u vd s = (Inl e, s') \<Longrightarrow> s' = s"
  by (auto simp: perform_create_def PaySerializer_create_def Let_def insert_row_def
      split: option.splits prod.splits if_splits)

lemma pay_create_Inl: "pay_create loads url_ok u rq s = (Inl e, s') \<Longrightarrow> s' = s"
  by (auto simp: pay_create_def split: sum.splits dest: perform_create_Inl)

lemma perform_create_Inr:
  assumes "perform_create u vd s = (Inr i, s')"
  shows "\<exists>k ord m p. a_pedido vd = Some (k, ord) \<and> a_metodo vd = Some m
       \<and> (staff u \<or> usuario ord = uid u) \<and> estado ord = ''pendiente''
       \<and> i = new_id (pagos s) \<and> s' = s\<lparr>pagos := pagos s @ [(i, p)]\<rparr>
       \<and> pay_pedido p = k
       \<and> pay_estado p = (if truthy_str (a_comprobante_archivo vd) \<or> a_comprobante_url vd \<noteq> []
                          then ''en_revision'' else a_estado vd)
       \<and> monto_pagado p = (case a_monto_pagado vd of None \<Rightarrow> total ord
                            | Some x \<Rightarrow> if x = 0 then total ord else x)"
  using assms
  by (auto simp: perform_create_def PaySerializer_create_def Let_def insert_row_def
      split: option.splits prod.splits if_splits)

lemma pay_create_Inr:
  assumes "pay_create loads url_ok u rq s = (Inr i, s')"
  shows "\<exists>ord p. map_of (orders s) (rq_pedido rq) = Some ord
       \<and> estado ord = ''pendiente'' \<and> open_pagos s (rq_pedido rq) = []
       \<and> i = new_id (pagos s) \<and> s' = s\<lparr>pagos := pagos s @ [(i, p)]\<rparr>
       \<and> pay_pedido p = rq_pedido rq
       \<and> pay_estado p = (if proof_given rq then ''en_revision''
                          else (case rq_estado rq of None \<Rightarrow> ''pendiente'' | Some e \<Rightarrow> e))
       \<and> monto_pagado p = total ord"
proof -
  from assms obtain attrs where ta: "to_attrs url_ok s rq = Inr attrs"
    by (cases "to_attrs url_ok s rq") (auto simp: pay_create_def)
  then obtain ord where ord: "map_of (orders s) (rq_pedido rq) = Some ord"
    and attrs: "a_pedido attrs = Some (rq_pedido rq, ord)"
      "a_estado attrs = (case rq_estado rq of None \<Rightarrow> ''pendiente'' | Some e \<Rightarrow> e)"
      "a_monto_pagado attrs = None"
      "a_comprobante_url attrs = (case rq_comprobante_url rq of None \<Rightarrow> [] | Some x \<Rightarrow> x)"
      "a_comprobante_archivo attrs = rq_comprobante_archivo rq"
    by (auto simp: to_attrs_def URLField_def split: option.splits sum.splits if_splits)
  from assms ta obtain vd where v: "PaySerializer_validate loads None s attrs = Inr vd"
    and pc: "perform_create u vd s = (Inr i, s')"
    by (cases "PaySerializer_validate loads None s attrs") (auto simp: pay_create_def)
  note k = validate_keeps [OF v]
  from validate_pedido [OF v attrs(1)] have op: "open_pagos s (rq_pedido rq) = []" by simp
  have pg: "(truthy_str (a_comprobante_archivo vd) \<or> a_comprobante_url vd \<noteq> []) = proof_given rq"
    using k attrs by (auto simp: proof_given_def truthy_str_def split: option.splits)
  from perform_create_Inr [OF pc] k attrs pg ord op show ?thesis by auto
qed



lemmas pay_defs = pay_create_def to_attrs_def DictField_def URLField_def url_ex_def
      PaySerializer_validate_def decode_metadata_def
      perform_create_def PaySerializer_create_def pedir_pago_def tienda0_def tienda_def pedido_1_def
      cliente_def truthy_str_def open_pagos_def insert_row_def new_id_def stored_metadata_def


section \<open>Card data in the metadata of a request\<close>

text \<open>
  A raw string under \<^verbatim>\<open>metadata\<close> never reaches \<^verbatim>\<open>validate\<close>: the request is handled as
  the same request without metadata, whatever the string is and whatever the decoder
  would make of it.
\<close>

lemma form_metadata_is_ignored:
  "pay_create loads url_ok u (rq\<lparr>rq_metadata := Some (MetaForm x)\<rparr>) s
     = pay_create loads url_ok u (rq\<lparr>rq_metadata := None\<rparr>) s"
proof -
  have "to_attrs url_ok s (rq\<lparr>rq_metadata := Some (MetaForm x)\<rparr>)
          = to_attrs url_ok s (rq\<lparr>rq_metadata := None\<rparr>)"
    by (simp add: to_attrs_def DictField_def split: option.splits sum.splits)
  then show ?thesis by (simp add: pay_create_def)
qed

text \<open>
  A card payment whose metadata is a dictionary with one of the keys of \<open>forbidden\<close> is
  rejected, and so is one whose metadata is a JSON value that is not a dictionary; the
  state stays as it was.
\<close>

lemma card_fields_in_json_body:
  assumes "map_of (orders s) (rq_pedido rq) = Some ord" and "rq_metodo rq = ''tarjeta''"
    and "rq_metadata rq = Some (MetaJson (JObj d))" and "k \<in> set forbidden" and "k \<in> fst ` set d"
    and "URLField url_ok (rq_comprobante_url rq) = Inr url"
  shows "pay_create loads url_ok u rq s = (Inl ForbiddenSensitiveData, s)"
proof -
  define attrs where "attrs = \<lparr>a_pedido = Some (rq_pedido rq, ord),
                         a_metodo = Some (rq_metodo rq),
                         a_estado = (case rq_estado rq of None \<Rightarrow> ''pendiente'' | Some e \<Rightarrow> e),
                         a_monto_pagado = None,
                         a_metadata = Some (MetaVal (JObj d)),
                         a_comprobante_url = url,
                         a_comprobante_archivo = rq_comprobante_archivo rq\<rparr>"
  have ta: "to_attrs url_ok s rq = Inr attrs"
    using assms(1,3,6) by (simp add: to_attrs_def DictField_def attrs_def)
  have "a_metodo attrs = Some ''tarjeta''" "a_metadata attrs = Some (MetaVal (JObj d))"
    using assms(2) by (simp_all add: attrs_def)
  with validate_metadata [of attrs loads None s] assms(4,5)
  have "PaySerializer_validate loads None s attrs = Inl ForbiddenSensitiveData" by blast
  with ta show ?thesis by (simp add: pay_create_def)
qed

text \<open>
  Claim C7. The specification says that a card payment whose metadata carries a card
  field is rejected, that metadata arriving as a raw string is decoded before that check,
  and that a string that does not decode is rejected. \<^verbatim>\<open>validate\<close> has the branch for it
  (\<^verbatim>\<open>if isinstance(metadata, str)\<close>, with the comment that the metadata comes as a string
  in a multipart request), but the field declared for \<^verbatim>\<open>metadata\<close> drops the raw string of
  a multipart request before \<^verbatim>\<open>validate\<close> runs. Here the owner of a pending order sends a
  card payment as a multipart request, once with the metadata \<^verbatim>\<open>{"cvv": "123"}\<close>, which
  decodes to a dictionary with the key \<^verbatim>\<open>cvv\<close>, and once with a string that does not
  decode: both payments are created, with empty metadata. The same dictionary sent in a
  JSON body is rejected with \<open>ForbiddenSensitiveData\<close>, and the same string sent as a JSON
  string is refused by the field.
\<close>

theorem raw_card_metadata_is_not_checked:
  "loads_ex ''{\"cvv\": \"123\"}'' = Some (JObj [(''cvv'', JStr ''123'')])
   \<and> fst (pay_create loads_ex url_ex cliente (pedir_tarjeta (Some (MetaForm ''{\"cvv\": \"123\"}'')))
            (tienda0 ''pendiente'')) = Inr 1
   \<and> map_option metadata
        (map_of (pagos (snd (pay_create loads_ex url_ex cliente
                               (pedir_tarjeta (Some (MetaForm ''{\"cvv\": \"123\"}'')))
                               (tienda0 ''pendiente'')))) 1) = Some (JObj [])
   \<and> loads_ex ''{cvv'' = None
   \<and> fst (pay_create loads_ex url_ex cliente (pedir_tarjeta (Some (MetaForm ''{cvv'')))
            (tienda0 ''pendiente'')) = Inr 1
   \<and> pay_create loads_ex url_ex cliente
        (pedir_tarjeta (Some (MetaJson (JObj [(''cvv'', JStr ''123'')])))) (tienda0 ''pendiente'')
       = (Inl ForbiddenSensitiveData, tienda0 ''pendiente'')
   \<and> pay_create loads_ex url_ex cliente
        (pedir_tarjeta (Some (MetaJson (JStr ''{\"cvv\": \"123\"}'')))) (tienda0 ''pendiente'')
       = (Inl (InvalidField ''metadata''), tienda0 ''pendiente'')"
  by (simp add: pay_defs pedir_tarjeta_def loads_ex_def forbidden_def)

section \<open>Facts about open payments\<close>

lemma filter_update_closed:
  "\<not> P (k, v) \<Longrightarrow> length (filter P (AList.update k v t)) \<le> length (filter P t)"
  by (induction t) auto

lemma open_pagos_closed:
  assumes "e \<notin> {''pendiente'', ''en_revision''}"
  shows "length (open_pagos (s\<lparr>pagos := save_row k (p\<lparr>pay_estado := e\<rparr>) (pagos s)\<rparr>) j)
           \<le> length (open_pagos s j)"
  using assms unfolding open_pagos_def save_row_def
  by (simp add: filter_update_closed)

lemma complete_open: "length (open_pagos (snd (complete u k s)) j) \<le> length (open_pagos s j)"
proof (cases "fst (complete u k s)")
  case (Inl e)
  then have "snd (complete u k s) = s"
    by (auto simp: complete_def split: sum.splits if_splits)
  then show ?thesis by simp
next
  case (Inr x)
  then obtain p where "snd (complete u k s) = Pay_complete k p s"
    by (auto simp: complete_def split: sum.splits if_splits)
  then show ?thesis
    using open_pagos_closed [where e = "''completado''" and s = s and k = k and p = p and j = j] by (simp add: Pay_complete_def)
qed

lemma fail_open: "length (open_pagos (snd (fail u k s)) j) \<le> length (open_pagos s j)"
proof (cases "fst (fail u k s)")
  case (Inl e)
  then have "snd (fail u k s) = s"
    by (auto simp: fail_def split: sum.splits if_splits option.splits)
  then show ?thesis by simp
next
  case (Inr x)
  then obtain p where "snd (fail u k s) = Pay_fail k p s"
    by (auto simp: fail_def split: sum.splits if_splits option.splits)
  then show ?thesis
    using open_pagos_closed [where e = "''fallido''" and s = s and k = k and p = p and j = j] by (simp add: Pay_fail_def)
qed

lemma create_open:
  assumes "\<forall>j. length (open_pagos s j) \<le> 1"
  shows "length (open_pagos (snd (pay_create loads url_ok u rq s)) j) \<le> 1"
proof (cases "fst (pay_create loads url_ok u rq s)")
  case (Inl e)
  then have "pay_create loads url_ok u rq s = (Inl e, snd (pay_create loads url_ok u rq s))"
    by (metis prod.collapse)
  from pay_create_Inl [OF this] assms show ?thesis by simp
next
  case (Inr i)
  then have "pay_create loads url_ok u rq s = (Inr i, snd (pay_create loads url_ok u rq s))"
    by (metis prod.collapse)
  from pay_create_Inr [OF this] obtain p where
    e: "open_pagos s (rq_pedido rq) = []"
    and s': "snd (pay_create loads url_ok u rq s) = s\<lparr>pagos := pagos s @ [(i, p)]\<rparr>"
    and p: "pay_pedido p = rq_pedido rq"
    by blast
  show ?thesis
  proof (cases "j = rq_pedido rq")
    case True
    with e have "length (open_pagos (s\<lparr>pagos := pagos s @ [(i, p)]\<rparr>) j) \<le> 1"
      by (simp add: open_pagos_def)
    with s' show ?thesis by simp
  next
    case False
    with p have "open_pagos (s\<lparr>pagos := pagos s @ [(i, p)]\<rparr>) j = open_pagos s j"
      by (simp add: open_pagos_def)
    with s' assms show ?thesis by simp
  qed
qed

lemma step_open:
  assumes "\<forall>j. length (open_pagos s j) \<le> 1"
  shows "\<forall>j. length (open_pagos (step loads url_ok x s) j) \<le> 1"
proof (cases x)
  case (Create u rq)
  with create_open [OF assms] show ?thesis by simp
next
  case (Complete u k)
  with assms complete_open [of u k s] show ?thesis by (auto intro: order_trans)
next
  case (Fail u k)
  with assms fail_open [of u k s] show ?thesis by (auto intro: order_trans)
qed

lemma run_ops_open:
  "\<forall>j. length (open_pagos s j) \<le> 1 \<Longrightarrow> \<forall>j. length (open_pagos (run_ops loads url_ok xs s) j) \<le> 1"
proof (induction xs arbitrary: s)
  case Nil
  then show ?case by simp
next
  case (Cons x xs)
  from Cons.IH [OF step_open [OF Cons.prems]] show ?case by simp
qed

lemma pay_create_fails_open:
  assumes "open_pagos s (rq_pedido rq) \<noteq> []"
  shows "\<exists>e. pay_create loads url_ok u rq s = (Inl e, s)"
proof (cases "fst (pay_create loads url_ok u rq s)")
  case (Inl e)
  then have r: "pay_create loads url_ok u rq s = (Inl e, snd (pay_create loads url_ok u rq s))"
    by (metis prod.collapse)
  from pay_create_Inl [OF r] r show ?thesis by auto
next
  case (Inr i)
  then have "pay_create loads url_ok u rq s = (Inr i, snd (pay_create loads url_ok u rq s))"
    by (metis prod.collapse)
  from pay_create_Inr [OF this] assms show ?thesis by blast
qed

lemma pay_create_fails_pagado:
  assumes "map_of (orders s) (rq_pedido rq) = Some ord" and "estado ord = ''pagado''"
  shows "\<exists>e. pay_create loads url_ok u rq s = (Inl e, s)"
proof (cases "fst (pay_create loads url_ok u rq s)")
  case (Inl e)
  then have r: "pay_create loads url_ok u rq s = (Inl e, snd (pay_create loads url_ok u rq s))"
    by (metis prod.collapse)
  from pay_create_Inl [OF r] r show ?thesis by auto
next
  case (Inr i)
  then have "pay_create loads url_ok u rq s = (Inr i, snd (pay_create loads url_ok u rq s))"
    by (metis prod.collapse)
  from pay_create_Inr [OF this] assms show ?thesis by auto
qed

lemma validate_duplicate:
  assumes v: "PaySerializer_validate loads inst (s\<lparr>pagos := []\<rparr>) attrs = Inr a'"
    and p: "a_pedido attrs = Some (k, ord)" and o: "open_pagos s k \<noteq> []"
  shows "PaySerializer_validate loads inst s attrs = Inl DuplicateOpenPayment"
  using assms
  by (auto simp: PaySerializer_validate_def Let_def split: sum.splits prod.splits if_splits)

lemma pay_create_duplicate:
  assumes ta: "to_attrs url_ok s rq = Inr attrs"
    and v: "PaySerializer_validate loads None (s\<lparr>pagos := []\<rparr>) attrs = Inr a'"
    and o: "open_pagos s (rq_pedido rq) \<noteq> []"
  shows "pay_create loads url_ok u rq s = (Inl DuplicateOpenPayment, s)"
proof -
  from ta obtain ord where "a_pedido attrs = Some (rq_pedido rq, ord)"
    by (auto simp: to_attrs_def split: option.splits sum.splits)
  from validate_duplicate [OF v this o] ta show ?thesis by (simp add: pay_create_def)
qed

text \<open>
  Claim C3. If every order has at most one payment in \<^verbatim>\<open>'pendiente'\<close> or \<^verbatim>\<open>'en_revision'\<close>,
  then so it is after any sequence of requests that create, complete or fail payments,
  whoever sends them and whether they are accepted or not. While the order of a request
  has such a payment, creating a payment for it fails and changes nothing, with
  \<open>DuplicateOpenPayment\<close> for every request that the serializer would accept if the order
  had no payments; and it fails, changing nothing, when the status of the order is
  \<^verbatim>\<open>'pagado'\<close>.
\<close>

theorem one_open_payment_per_order:
  "((\<forall>j. length (open_pagos s j) \<le> 1)
      \<longrightarrow> (\<forall>j. length (open_pagos (run_ops loads url_ok xs s) j) \<le> 1))
   \<and> (open_pagos s (rq_pedido rq) \<noteq> []
      \<longrightarrow> (\<exists>e. pay_create loads url_ok u rq s = (Inl e, s))
        \<and> (\<forall>attrs a'. to_attrs url_ok s rq = Inr attrs
                \<and> PaySerializer_validate loads None (s\<lparr>pagos := []\<rparr>) attrs = Inr a'
             \<longrightarrow> pay_create loads url_ok u rq s = (Inl DuplicateOpenPayment, s)))
   \<and> (\<forall>ord. map_of (orders s) (rq_pedido rq) = Some ord \<and> estado ord = ''pagado''
      \<longrightarrow> (\<exists>e. pay_create loads url_ok u rq s = (Inl e, s)))"
proof (intro conjI allI impI)
  fix j
  assume "\<forall>j. length (open_pagos s j) \<le> 1"
  from run_ops_open [OF this] show "length (open_pagos (run_ops loads url_ok xs s) j) \<le> 1" by blast
next
  assume "open_pagos s (rq_pedido rq) \<noteq> []"
  then show "\<exists>e. pay_create loads url_ok u rq s = (Inl e, s)" by (rule pay_create_fails_open)
next
  fix attrs a'
  assume "open_pagos s (rq_pedido rq) \<noteq> []"
    and "to_attrs url_ok s rq = Inr attrs
                \<and> PaySerializer_validate loads None (s\<lparr>pagos := []\<rparr>) attrs = Inr a'"
  then show "pay_create loads url_ok u rq s = (Inl DuplicateOpenPayment, s)"
    using pay_create_duplicate by blast
next
  fix ord
  assume "map_of (orders s) (rq_pedido rq) = Some ord \<and> estado ord = ''pagado''"
  then show "\<exists>e. pay_create loads url_ok u rq s = (Inl e, s)"
    using pay_create_fails_pagado by blast
qed

text \<open>
  C3 from a state with no payments: after one creation the order has one open payment;
  after a creation, a second one (rejected), a failure, a creation with a proof and a
  completion no order has more than one. A creation for an order with a payment in review
  and one for a paid order are rejected.
\<close>

theorem one_open_payment_per_order_witness:
  "(\<forall>j. length (open_pagos (tienda0 ''pendiente'') j) \<le> 1)
   \<and> length (open_pagos (run_ops loads_ex url_ex [Create cliente (pedir_pago None None)] (tienda0 ''pendiente'')) 1) = 1
   \<and> (\<forall>j. length (open_pagos
               (run_ops loads_ex url_ex
                  [Create cliente (pedir_pago None None), Create cliente (pedir_pago None None),
                   Fail cliente 1, Create cliente (pedir_pago None (Some ''https://banco.example/c/2'')), Complete admin 2]
                  (tienda0 ''pendiente'')) j) \<le> 1)
   \<and> open_pagos (tienda ''pendiente'' ''en_revision'' []) (rq_pedido (pedir_pago None None)) \<noteq> []
   \<and> pay_create loads_ex url_ex cliente (pedir_pago None None) (tienda ''pendiente'' ''en_revision'' [])
        = (Inl DuplicateOpenPayment, tienda ''pendiente'' ''en_revision'' [])
   \<and> map_of (orders (tienda0 ''pagado'')) (rq_pedido (pedir_pago None None)) = Some (pedido_1 ''pagado'')
   \<and> estado (pedido_1 ''pagado'') = ''pagado''
   \<and> (\<exists>e. pay_create loads_ex url_ex cliente (pedir_pago None None) (tienda0 ''pagado'')
          = (Inl e, tienda0 ''pagado''))"
proof -
  let ?rq = "pedir_pago None None"
  let ?xs = "[Create cliente (pedir_pago None None), Create cliente (pedir_pago None None),
              Fail cliente 1, Create cliente (pedir_pago None (Some ''https://banco.example/c/2'')), Complete admin 2]"
  let ?t = "tienda ''pendiente'' ''en_revision'' []"
  have i: "\<forall>j. length (open_pagos (tienda0 ''pendiente'') j) \<le> 1"
    by (simp add: open_pagos_def tienda0_def tienda_def)
  have one: "length (open_pagos (run_ops loads_ex url_ex [Create cliente ?rq] (tienda0 ''pendiente'')) 1) = 1"
    by (simp add: pay_defs)
  have o: "open_pagos ?t (rq_pedido ?rq) \<noteq> []"
    by (simp add: open_pagos_def tienda_def pago_1_def pedir_pago_def)
  obtain attrs where ta: "to_attrs url_ex ?t ?rq = Inr attrs"
    by (simp add: to_attrs_def DictField_def URLField_def tienda_def pedir_pago_def)
  then have "\<exists>a'. PaySerializer_validate loads_ex None (?t\<lparr>pagos := []\<rparr>) attrs = Inr a'"
    by (auto simp: pay_defs)
  then obtain a' where v: "PaySerializer_validate loads_ex None (?t\<lparr>pagos := []\<rparr>) attrs = Inr a'"
    by blast
  have m: "map_of (orders (tienda0 ''pagado'')) (rq_pedido ?rq) = Some (pedido_1 ''pagado'')"
    by (simp add: tienda0_def tienda_def pedir_pago_def)
  have e: "estado (pedido_1 ''pagado'') = ''pagado''" by (simp add: pedido_1_def)
  from one_open_payment_per_order [of "tienda0 ''pendiente''" loads_ex url_ex ?xs ?rq cliente] i
  have 1: "\<forall>j. length (open_pagos (run_ops loads_ex url_ex ?xs (tienda0 ''pendiente'')) j) \<le> 1"
    by blast
  from one_open_payment_per_order [of ?t loads_ex url_ex "[]" ?rq cliente] o ta v
  have 2: "pay_create loads_ex url_ex cliente ?rq ?t = (Inl DuplicateOpenPayment, ?t)"
    by blast
  from one_open_payment_per_order [of "tienda0 ''pagado''" loads_ex url_ex "[]" ?rq cliente] m e
  have 3: "\<exists>e. pay_create loads_ex url_ex cliente ?rq (tienda0 ''pagado'') = (Inl e, tienda0 ''pagado'')"
    by blast
  from i one 1 o 2 m e 3 show ?thesis by blast
qed

section \<open>Facts about the transitions of a payment\<close>

lemma get_pago_Some: "map_of (pagos s) k = Some pago \<Longrightarrow> get_pago k s = Inr pago"
  by (simp add: get_pago_def)

lemma proof_not_pending:
  assumes "map_of (pagos s) k = Some pago" and "map_of (orders s) (pay_pedido pago) = Some ord"
    and "pay_estado pago \<noteq> ''pendiente''"
  shows "proof' u k archivo url s =
     (Inl (if staff u \<or> usuario ord = uid u
           then InvalidStateTransition (pay_estado pago) ''en_revision'' else Unauthorized), s)"
  using assms by (auto simp: proof'_def get_pago_Some)

lemma proof_pending:
  assumes p: "map_of (pagos s) k = Some pago" and o: "map_of (orders s) (pay_pedido pago) = Some ord"
    and a: "staff u \<or> usuario ord = uid u" and e: "pay_estado pago = ''pendiente''"
    and g: "truthy_str archivo \<or> truthy_str url"
  shows "\<exists>s' p'. proof' u k archivo url s = (Inr (), s')
       \<and> map_of (pagos s') k = Some p' \<and> pay_estado p' = ''en_revision''
       \<and> (truthy_str archivo \<longrightarrow> comprobante_archivo p' = archivo)
       \<and> (\<forall>x. url = Some x \<and> x \<noteq> [] \<longrightarrow> comprobante_url p' = x)
       \<and> map_of (orders s') (pay_pedido pago)
            = Some (if estado ord = ''pendiente'' then ord\<lparr>estado := ''en_revision''\<rparr> else ord)"
proof -
  have au: "(if staff u then Inr ()
             else (case map_of (orders s) (pay_pedido pago) of
                     None \<Rightarrow> Inl (ServerError ''DoesNotExist'')
                   | Some ord \<Rightarrow> if usuario ord \<noteq> uid u then Inl Unauthorized else Inr ())) = Inr ()"
    using a o by auto
  show ?thesis
    unfolding proof'_def get_pago_Some [OF p] using e g o
    by (cases url) (auto simp: au Let_def map_of_save_row truthy_str_def)
qed

lemma fail_open_payment:
  assumes "map_of (pagos s) k = Some pago" and "map_of (orders s) (pay_pedido pago) = Some ord"
    and "staff u \<or> usuario ord = uid u" and "pay_estado pago \<in> {''pendiente'', ''en_revision''}"
  shows "fail u k s = (Inr (), Pay_fail k pago s)"
  using assms by (auto simp: fail_def get_pago_Some)

lemma fail_closed_payment:
  assumes "map_of (pagos s) k = Some pago" and "pay_estado pago \<notin> {''pendiente'', ''en_revision''}"
  shows "fail u k s = (Inl (InvalidStateTransition (pay_estado pago) ''fallido''), s)"
  using assms by (auto simp: fail_def get_pago_Some)

lemma Pay_fail_result:
  "map_of (pagos (Pay_fail k pago s)) k = Some (pago\<lparr>pay_estado := ''fallido''\<rparr>)
   \<and> orders (Pay_fail k pago s) = orders s"
  by (simp add: Pay_fail_def map_of_save_row)

lemma reject_in_review:
  assumes p: "map_of (pagos s) k = Some pago" and o: "map_of (orders s) (pay_pedido pago) = Some ord"
    and a: "staff u" and e: "pay_estado pago = ''en_revision''"
  shows "\<exists>s'. reject u k s = (Inr (), s')
       \<and> map_of (pagos s') k = Some (pago\<lparr>pay_estado := ''fallido''\<rparr>)
       \<and> map_of (orders s') (pay_pedido pago)
            = Some (if estado ord = ''en_revision'' then ord\<lparr>estado := ''pendiente''\<rparr> else ord)"
proof -
  define s1 where "s1 = Pay_fail k pago s"
  have o1: "map_of (orders s1) (pay_pedido pago) = Some ord" using o by (simp add: s1_def Pay_fail_def)
  have p1: "map_of (pagos s1) k = Some (pago\<lparr>pay_estado := ''fallido''\<rparr>)"
    by (simp add: s1_def Pay_fail_result)
  have "reject u k s = (Inr (), if estado ord = ''en_revision''
          then s1\<lparr>orders := save_row (pay_pedido pago) (ord\<lparr>estado := ''pendiente''\<rparr>) (orders s1)\<rparr>
          else s1)"
    unfolding reject_def get_pago_Some [OF p] using a e o
    by (simp add: Let_def s1_def Pay_fail_def)
  with o1 p1 show ?thesis by (auto simp: map_of_save_row)
qed

lemma reject_not_in_review:
  assumes "map_of (pagos s) k = Some pago" and "pay_estado pago \<noteq> ''en_revision''"
  shows "reject u k s =
     (Inl (if staff u then InvalidStateTransition (pay_estado pago) ''fallido'' else Unauthorized), s)"
  using assms by (auto simp: reject_def get_pago_Some)

text \<open>
  Claim C4 says that \<^verbatim>\<open>reject\<close>, like \<^verbatim>\<open>fail\<close>, succeeds from \<^verbatim>\<open>'pendiente'\<close> and from
  \<^verbatim>\<open>'en_revision'\<close>. The view \<^verbatim>\<open>reject\<close> only takes a payment in review: the rejection of a
  pending payment by an administrator is refused and changes nothing.
\<close>

theorem reject_refuses_pending_payment:
  "staff admin
   \<and> map_option pay_estado (map_of (pagos (tienda ''pendiente'' ''pendiente'' [])) 1) = Some ''pendiente''
   \<and> reject admin 1 (tienda ''pendiente'' ''pendiente'' [])
        = (Inl (InvalidStateTransition ''pendiente'' ''fallido''), tienda ''pendiente'' ''pendiente'' [])"
  by (simp add: reject_def get_pago_def staff_def admin_def tienda_def pago_1_def)

text \<open>
  Claim C4 as amended, for a payment \<open>k\<close> and its order. The proof of payment is refused
  unless the payment is \<^verbatim>\<open>'pendiente'\<close>; from there, sent by the owner of the order or by
  staff with a file or a URL, it succeeds, stores what was sent, leaves the payment in
  \<^verbatim>\<open>'en_revision'\<close> and moves an order in \<^verbatim>\<open>'pendiente'\<close> to \<^verbatim>\<open>'en_revision'\<close>. \<^verbatim>\<open>fail\<close>, by
  the owner or by staff, succeeds from \<^verbatim>\<open>'pendiente'\<close> and \<^verbatim>\<open>'en_revision'\<close>, leaves the
  payment in \<^verbatim>\<open>'fallido'\<close> and the orders as they were, and is refused from any other
  status. \<^verbatim>\<open>reject\<close>, by staff, succeeds from \<^verbatim>\<open>'en_revision'\<close> only, leaves the payment in
  \<^verbatim>\<open>'fallido'\<close> and moves an order in \<^verbatim>\<open>'en_revision'\<close> back to \<^verbatim>\<open>'pendiente'\<close>; from any
  other status it is refused. A refused request changes nothing.
\<close>

theorem payment_transitions:
  assumes "map_of (pagos s) k = Some pago" and "map_of (orders s) (pay_pedido pago) = Some ord"
  shows "(pay_estado pago \<noteq> ''pendiente'' \<longrightarrow>
            proof' u k archivo url s =
              (Inl (if staff u \<or> usuario ord = uid u
                    then InvalidStateTransition (pay_estado pago) ''en_revision'' else Unauthorized), s))
    \<and> ((staff u \<or> usuario ord = uid u) \<and> pay_estado pago = ''pendiente''
          \<and> (truthy_str archivo \<or> truthy_str url) \<longrightarrow>
            (\<exists>s' p'. proof' u k archivo url s = (Inr (), s')
               \<and> map_of (pagos s') k = Some p' \<and> pay_estado p' = ''en_revision''
               \<and> (truthy_str archivo \<longrightarrow> comprobante_archivo p' = archivo)
               \<and> (\<forall>x. url = Some x \<and> x \<noteq> [] \<longrightarrow> comprobante_url p' = x)
               \<and> map_of (orders s') (pay_pedido pago)
                    = Some (if estado ord = ''pendiente'' then ord\<lparr>estado := ''en_revision''\<rparr> else ord)))
    \<and> ((staff u \<or> usuario ord = uid u) \<and> pay_estado pago \<in> {''pendiente'', ''en_revision''} \<longrightarrow>
            (\<exists>s'. fail u k s = (Inr (), s')
               \<and> map_of (pagos s') k = Some (pago\<lparr>pay_estado := ''fallido''\<rparr>)
               \<and> orders s' = orders s))
    \<and> (pay_estado pago \<notin> {''pendiente'', ''en_revision''} \<longrightarrow>
            fail u k s = (Inl (InvalidStateTransition (pay_estado pago) ''fallido''), s))
    \<and> (staff u \<and> pay_estado pago = ''en_revision'' \<longrightarrow>
            (\<exists>s'. reject u k s = (Inr (), s')
               \<and> map_of (pagos s') k = Some (pago\<lparr>pay_estado := ''fallido''\<rparr>)
               \<and> map_of (orders s') (pay_pedido pago)
                    = Some (if estado ord = ''en_revision'' then ord\<lparr>estado := ''pendiente''\<rparr> else ord)))
    \<and> (pay_estado pago \<noteq> ''en_revision'' \<longrightarrow>
            reject u k s =
              (Inl (if staff u then InvalidStateTransition (pay_estado pago) ''fallido''
                    else Unauthorized), s))"
proof (intro conjI impI)
  assume "pay_estado pago \<noteq> ''pendiente''"
  with assms show "proof' u k archivo url s =
              (Inl (if staff u \<or> usuario ord = uid u
                    then InvalidStateTransition (pay_estado pago) ''en_revision'' else Unauthorized), s)"
    by (rule proof_not_pending)
next
  assume "(staff u \<or> usuario ord = uid u) \<and> pay_estado pago = ''pendiente''
          \<and> (truthy_str archivo \<or> truthy_str url)"
  then show "\<exists>s' p'. proof' u k archivo url s = (Inr (), s')
               \<and> map_of (pagos s') k = Some p' \<and> pay_estado p' = ''en_revision''
               \<and> (truthy_str archivo \<longrightarrow> comprobante_archivo p' = archivo)
               \<and> (\<forall>x. url = Some x \<and> x \<noteq> [] \<longrightarrow> comprobante_url p' = x)
               \<and> map_of (orders s') (pay_pedido pago)
                    = Some (if estado ord = ''pendiente'' then ord\<lparr>estado := ''en_revision''\<rparr> else ord)"
    using proof_pending [OF assms, where u = u and archivo = archivo and url = url] by blast
next
  assume "(staff u \<or> usuario ord = uid u) \<and> pay_estado pago \<in> {''pendiente'', ''en_revision''}"
  then have "fail u k s = (Inr (), Pay_fail k pago s)"
    using fail_open_payment [OF assms, where u = u] by blast
  then show "\<exists>s'. fail u k s = (Inr (), s')
               \<and> map_of (pagos s') k = Some (pago\<lparr>pay_estado := ''fallido''\<rparr>)
               \<and> orders s' = orders s"
    using Pay_fail_result [of k pago s] by simp
next
  assume "pay_estado pago \<notin> {''pendiente'', ''en_revision''}"
  with assms(1) show "fail u k s = (Inl (InvalidStateTransition (pay_estado pago) ''fallido''), s)"
    by (rule fail_closed_payment)
next
  assume "staff u \<and> pay_estado pago = ''en_revision''"
  then show "\<exists>s'. reject u k s = (Inr (), s')
               \<and> map_of (pagos s') k = Some (pago\<lparr>pay_estado := ''fallido''\<rparr>)
               \<and> map_of (orders s') (pay_pedido pago)
                    = Some (if estado ord = ''en_revision'' then ord\<lparr>estado := ''pendiente''\<rparr> else ord)"
    using reject_in_review [OF assms, where u = u] by blast
next
  assume "pay_estado pago \<noteq> ''en_revision''"
  with assms(1) show "reject u k s =
              (Inl (if staff u then InvalidStateTransition (pay_estado pago) ''fallido''
                    else Unauthorized), s)"
    by (rule reject_not_in_review)
qed

text \<open>
  The amended C4 on the scenario of the specification: the client sends a proof for a
  pending payment of a pending order (both go to review), an administrator rejects a
  payment in review (it fails, the order is pending again); a pending payment fails; a
  payment in review takes no second proof, and a completed one neither fails nor is
  rejected.
\<close>

theorem payment_transitions_witness:
  "map_of (pagos (tienda ''pendiente'' ''pendiente'' [])) 1 = Some (pago_1 ''pendiente'')
   \<and> map_of (orders (tienda ''pendiente'' ''pendiente'' [])) (pay_pedido (pago_1 ''pendiente''))
        = Some (pedido_1 ''pendiente'')
   \<and> usuario (pedido_1 ''pendiente'') = uid cliente
   \<and> (\<exists>s' p'. proof' cliente 1 None (Some ''https://banco.example/c/1'') (tienda ''pendiente'' ''pendiente'' [])
                 = (Inr (), s')
          \<and> map_of (pagos s') 1 = Some p' \<and> pay_estado p' = ''en_revision''
          \<and> comprobante_url p' = ''https://banco.example/c/1''
          \<and> map_of (orders s') 1 = Some (pedido_1 ''en_revision''))
   \<and> (\<exists>s'. fail cliente 1 (tienda ''pendiente'' ''pendiente'' []) = (Inr (), s')
          \<and> map_of (pagos s') 1 = Some (pago_1 ''fallido''))
   \<and> map_of (pagos (tienda ''en_revision'' ''en_revision'' [])) 1 = Some (pago_1 ''en_revision'')
   \<and> (\<exists>s'. reject admin 1 (tienda ''en_revision'' ''en_revision'' []) = (Inr (), s')
          \<and> map_of (pagos s') 1 = Some (pago_1 ''fallido'')
          \<and> map_of (orders s') 1 = Some (pedido_1 ''pendiente''))
   \<and> proof' cliente 1 None (Some ''https://banco.example/c/1'') (tienda ''en_revision'' ''en_revision'' [])
        = (Inl (InvalidStateTransition ''en_revision'' ''en_revision''), tienda ''en_revision'' ''en_revision'' [])
   \<and> map_of (pagos (tienda ''procesando'' ''completado'' [])) 1 = Some (pago_1 ''completado'')
   \<and> fail admin 1 (tienda ''procesando'' ''completado'' [])
        = (Inl (InvalidStateTransition ''completado'' ''fallido''), tienda ''procesando'' ''completado'' [])
   \<and> reject admin 1 (tienda ''procesando'' ''completado'' [])
        = (Inl (InvalidStateTransition ''completado'' ''fallido''), tienda ''procesando'' ''completado'' [])"
proof -
  let ?a = "tienda ''pendiente'' ''pendiente'' []"
  let ?b = "tienda ''en_revision'' ''en_revision'' []"
  let ?c = "tienda ''procesando'' ''completado'' []"
  let ?url = "Some ''https://banco.example/c/1''"
  have pp: "pay_pedido (pago_1 x) = 1" "pay_estado (pago_1 x) = x" "(pago_1 x)\<lparr>pay_estado := y\<rparr> = pago_1 y" for x y
    by (simp_all add: pago_1_def)
  have oo: "estado (pedido_1 x) = x" "(pedido_1 x)\<lparr>estado := y\<rparr> = pedido_1 y" "usuario (pedido_1 x) = uid cliente" for x y
    by (simp_all add: pedido_1_def cliente_def)
  have st: "staff admin" "\<not> staff cliente" by (simp_all add: staff_def admin_def cliente_def)
  have tr: "truthy_str ?url" "\<not> truthy_str None" by (simp_all add: truthy_str_def)
  have pa: "map_of (pagos (tienda e pe se)) 1 = Some (pago_1 pe)"
    and oa: "map_of (orders (tienda e pe se)) (pay_pedido (pago_1 pe)) = Some (pedido_1 e)" for e pe se
    by (simp_all add: tienda_def pago_1_def)
  note ta = payment_transitions [OF pa [of "''pendiente''" "''pendiente''" "[]"] oa [of "''pendiente''" "''pendiente''" "[]"]]
  note tb = payment_transitions [OF pa [of "''en_revision''" "''en_revision''" "[]"] oa [of "''en_revision''" "''en_revision''" "[]"]]
  note tc = payment_transitions [OF pa [of "''procesando''" "''completado''" "[]"] oa [of "''procesando''" "''completado''" "[]"]]
  from ta [where u = cliente and archivo = None and url = ?url] tr
  have "\<exists>s' p'. proof' cliente 1 None ?url ?a = (Inr (), s')
               \<and> map_of (pagos s') 1 = Some p' \<and> pay_estado p' = ''en_revision''
               \<and> (\<forall>x. ?url = Some x \<and> x \<noteq> [] \<longrightarrow> comprobante_url p' = x)
               \<and> map_of (orders s') 1 = Some (pedido_1 ''en_revision'')"
    unfolding pp oo by auto
  then have 1: "\<exists>s' p'. proof' cliente 1 None ?url ?a = (Inr (), s')
          \<and> map_of (pagos s') 1 = Some p' \<and> pay_estado p' = ''en_revision''
          \<and> comprobante_url p' = ''https://banco.example/c/1''
          \<and> map_of (orders s') 1 = Some (pedido_1 ''en_revision'')"
    by auto
  from ta [where u = cliente and archivo = None and url = None]
  have 2: "\<exists>s'. fail cliente 1 ?a = (Inr (), s') \<and> map_of (pagos s') 1 = Some (pago_1 ''fallido'')"
    unfolding pp oo by auto
  from tb [where u = admin and archivo = None and url = None] st
  have 3: "\<exists>s'. reject admin 1 ?b = (Inr (), s')
          \<and> map_of (pagos s') 1 = Some (pago_1 ''fallido'')
          \<and> map_of (orders s') 1 = Some (pedido_1 ''pendiente'')"
    unfolding pp oo by auto
  from tb [where u = cliente and archivo = None and url = ?url]
  have 4: "proof' cliente 1 None ?url ?b = (Inl (InvalidStateTransition ''en_revision'' ''en_revision''), ?b)"
    unfolding pp oo by auto
  from tc [where u = admin and archivo = None and url = None] st
  have 5: "fail admin 1 ?c = (Inl (InvalidStateTransition ''completado'' ''fallido''), ?c)"
    "reject admin 1 ?c = (Inl (InvalidStateTransition ''completado'' ''fallido''), ?c)"
    unfolding pp oo by auto
  from 1 2 3 4 5 pa [of "''pendiente''" "''pendiente''" "[]"] oa [of "''pendiente''" "''pendiente''" "[]"]
    pa [of "''en_revision''" "''en_revision''" "[]"] pa [of "''procesando''" "''completado''" "[]"] oo(3)
  show ?thesis by blast
qed

end
